theory Spec2Isabelle
  imports Complex_Main "HOL-Library.Multiset"
begin

section \<open>Data model of the order store\<close>

text \<open>
  The relational tables are lists of rows in table order. Primary keys are the
  auto-increment integers of the models, amounts of \<^verbatim>\<open>DECIMAL(10, 2)\<close> columns are
  integers counting hundredths (cents), timestamps are integers (milliseconds).
\<close>

datatype status = Pending | Confirmed | Preparing | Ready | OutForDelivery | Delivered | Cancelled

datatype role = Customer | RestaurantOwner | Rider

record user =
  user_id :: nat
  role :: role
  is_active :: bool
  user_created_at :: int

record restaurant =
  rest_id :: nat
  owner_id :: nat
  rest_is_active :: bool
  is_accepting_orders :: bool

text \<open>
  A nullable column is an option. \<open>delivery_fee\<close> is read back from the store as a
  decimal string or null, so it is an option as well: every string, also \<^verbatim>\<open>"0.00"\<close>,
  is truthy in the source's tests, only null is not.
\<close>

record order =
  order_id :: nat
  customer_id :: nat
  restaurant_id :: nat
  address_id :: nat
  rider_id :: "nat option"
  order_number :: string
  status :: status
  subtotal :: int
  delivery_fee :: "int option"
  total_amount :: int
  estimated_delivery_time :: "int option"
  delivered_at :: "int option"
  cancelled_at :: "int option"
  cancellation_reason :: "string option"
  rider_earning :: "int option"
  created_at :: int

record order_item =
  oi_order_id :: nat
  oi_menu_item_id :: nat
  oi_quantity :: int
  oi_price :: int
  oi_item_name :: string

record cart =
  cart_id :: nat
  cart_user_id :: nat
  cart_restaurant_id :: nat
  cart_created_at :: int

record cart_item =
  ci_cart_id :: nat
  ci_menu_item_id :: nat
  quantity :: int
  price :: int
  ci_created_at :: int

record menu_item =
  mi_id :: nat
  mi_name :: string

record address =
  addr_id :: nat
  addr_user_id :: nat

record db =
  users :: "user list"
  restaurants :: "restaurant list"
  orders :: "order list"
  order_items :: "order_item list"
  carts :: "cart list"
  cart_items :: "cart_item list"
  menu_items :: "menu_item list"
  addresses :: "address list"

text \<open>
  The errors that the modelled code throws or answers with, named after their messages.
\<close>

datatype error =
    OrderNotFound
  | OrderMustBeReady
  | TypeError
  | AccessDenied
  | StatusRequired
  | InvalidStatus
  | NotYourRestaurant
  | OwnerStatusNotAllowed
  | NotAssignedToYou
  | RiderStatusNotAllowed
  | CannotChangeStatus status status
  | AddressRequired
  | CartEmpty
  | AddressNotFound
  | NotYourAddress
  | RestaurantNotAccepting
  | ValidationError
  | UniqueConstraintError
  | MenuItemNotFound nat

text \<open>JavaScript truthiness of a nullable integer: null and 0 are falsy.\<close>

definition truthy :: "nat option \<Rightarrow> bool" where
  "truthy v = (case v of None \<Rightarrow> False | Some n \<Rightarrow> n \<noteq> 0)"

definition findOrderByPk :: "db \<Rightarrow> nat \<Rightarrow> order option" where
  "findOrderByPk d i = find (\<lambda>x. order_id x = i) (orders d)"

definition findUserByPk :: "db \<Rightarrow> nat \<Rightarrow> user option" where
  "findUserByPk d i = find (\<lambda>u. user_id u = i) (users d)"

definition findAddressByPk :: "db \<Rightarrow> nat \<Rightarrow> address option" where
  "findAddressByPk d i = find (\<lambda>a. addr_id a = i) (addresses d)"

definition findMenuItemByPk :: "db \<Rightarrow> nat \<Rightarrow> menu_item option" where
  "findMenuItemByPk d i = find (\<lambda>m. mi_id m = i) (menu_items d)"

definition findRestaurantByPk :: "db \<Rightarrow> nat \<Rightarrow> restaurant option" where
  "findRestaurantByPk d i = find (\<lambda>r. rest_id r = i) (restaurants d)"

text \<open>\<^verbatim>\<open>instance.update(values)\<close>: the row with the instance's key is replaced.\<close>

definition saveOrder :: "db \<Rightarrow> order \<Rightarrow> db" where
  "saveOrder d new = d\<lparr>orders := map (\<lambda>x. if order_id x = order_id new then new else x) (orders d)\<rparr>"

section \<open>Order.updateStatus\<close>

text \<open>
  \<^verbatim>\<open>parseFloat\<close> of a stored amount and \<^verbatim>\<open>Number.prototype.toFixed(2)\<close>, on exact
  rationals: \<open>toFixed2\<close> gives the cents of the nearest two-decimal number, the
  larger one on a tie, applied to the absolute value for a negative number. The source
  computes in doubles; 80 percent of a two-decimal amount is at least a tenth of a cent
  away from every rounding boundary, which is far more than the error of a double on the
  amounts of a \<^verbatim>\<open>DECIMAL(10, 2)\<close> column, so the digits are those of the exact
  product.
\<close>

definition parseFloat :: "int \<Rightarrow> rat" where
  "parseFloat cents = of_int cents / 100"

definition toFixed2 :: "rat \<Rightarrow> int" where
  "toFixed2 x = (if x < 0 then - \<lfloor>(- x) * 100 + 1 / 2\<rfloor> else \<lfloor>x * 100 + 1 / 2\<rfloor>)"

definition RIDER_EARNING_PERCENTAGE :: rat where
  "RIDER_EARNING_PERCENTAGE = 80 / 100"

text \<open>
  The \<^verbatim>\<open>additionalData\<close> object, with the keys the callers pass: the status route
  passes \<^verbatim>\<open>{ status, estimated_delivery_time }\<close>, \<^verbatim>\<open>cancelOrder\<close> passes
  \<^verbatim>\<open>{ cancellation_reason }\<close>. \<open>None\<close> is an absent key.
\<close>

record additionalData =
  ad_status :: "status option"
  ad_estimated_delivery_time :: "int option"
  ad_cancellation_reason :: "string option option"

definition noData :: additionalData where
  "noData = \<lparr>ad_status = None, ad_estimated_delivery_time = None, ad_cancellation_reason = None\<rparr>"

text \<open>\<^verbatim>\<open>{ status, ...additionalData }\<close> written over the loaded row.\<close>

definition spreadData :: "order \<Rightarrow> status \<Rightarrow> additionalData \<Rightarrow> order" where
  "spreadData ord st ad = ord
     \<lparr>status := (case ad_status ad of None \<Rightarrow> st | Some s \<Rightarrow> s),
      estimated_delivery_time :=
        (case ad_estimated_delivery_time ad of None \<Rightarrow> estimated_delivery_time ord | Some e \<Rightarrow> Some e),
      cancellation_reason :=
        (case ad_cancellation_reason ad of None \<Rightarrow> cancellation_reason ord | Some r \<Rightarrow> r)\<rparr>"

definition riderEarning :: "int \<Rightarrow> int" where
  "riderEarning fee = toFixed2 (parseFloat fee * RIDER_EARNING_PERCENTAGE)"

text \<open>
  The status argument is a value of the enumeration, so the source's test against
  \<^verbatim>\<open>validStatuses\<close> always passes and has no branch here.
\<close>

definition updateStatus :: "db \<Rightarrow> nat \<Rightarrow> status \<Rightarrow> additionalData \<Rightarrow> int \<Rightarrow> error + (db \<times> order)" where
  "updateStatus d i st ad now =
     (case findOrderByPk d i of
        None \<Rightarrow> Inl OrderNotFound
      | Some ord \<Rightarrow>
          let updateData = spreadData ord st ad;
              updated =
                (if st = Delivered then
                   (let u = updateData\<lparr>delivered_at := Some now\<rparr> in
                    case delivery_fee ord of
                      None \<Rightarrow> u
                    | Some fee \<Rightarrow>
                        if truthy (rider_id ord)
                        then u\<lparr>rider_earning := Some (riderEarning fee)\<rparr>
                        else u)
                 else if st = Cancelled then
                   updateData\<lparr>cancelled_at := Some now, rider_earning := None\<rparr>
                 else updateData)
          in Inr (saveOrder d updated, updated))"

section \<open>Order.assignRider and the finders of the models\<close>

definition assignRider :: "db \<Rightarrow> nat \<Rightarrow> nat \<Rightarrow> error + (db \<times> order)" where
  "assignRider d i riderId =
     (case findOrderByPk d i of
        None \<Rightarrow> Inl OrderNotFound
      | Some ord \<Rightarrow>
          if status ord \<noteq> Ready then Inl OrderMustBeReady
          else let updated = ord\<lparr>rider_id := Some riderId\<rparr>
               in Inr (saveOrder d updated, updated))"

text \<open>
  \<^verbatim>\<open>ORDER BY created_at\<close> is a stable sort of the table here: among rows of equal
  creation time the store may answer in any order, and this is one of them.
\<close>

definition findAvailableForRider :: "db \<Rightarrow> nat \<Rightarrow> nat \<Rightarrow> order list" where
  "findAvailableForRider d limit offset =
     take limit (drop offset
       (sort_key created_at (filter (\<lambda>x. status x = Ready \<and> rider_id x = None) (orders d))))"

text \<open>
  \<^verbatim>\<open>User.findByRole(role, { limit, where: { is_active: true } })\<close>: newest first.
\<close>

definition findByRole :: "db \<Rightarrow> role \<Rightarrow> nat \<Rightarrow> user list" where
  "findByRole d r limit =
     take limit (sort_key (\<lambda>u. - user_created_at u)
       (filter (\<lambda>u. role u = r \<and> is_active u) (users d)))"

section \<open>The rider service\<close>

definition activeDelivery :: "status \<Rightarrow> bool" where
  "activeDelivery s = (s = Ready \<or> s = OutForDelivery)"

definition findAvailableRiders :: "db \<Rightarrow> nat \<Rightarrow> user list" where
  "findAvailableRiders d limit =
     (let allRiders = findByRole d Rider 100 in
      if allRiders = [] then []
      else
        let riderIds = map user_id allRiders;
            busyRiders = remdups (map rider_id
              (filter (\<lambda>x. (case rider_id x of None \<Rightarrow> False | Some r \<Rightarrow> r \<in> set riderIds)
                            \<and> activeDelivery (status x)) (orders d)));
            busyRiderIds = filter truthy busyRiders;
            availableRiders = filter (\<lambda>r. Some (user_id r) \<notin> set busyRiderIds) allRiders
        in take limit availableRiders)"

text \<open>\<^verbatim>\<open>Order.count\<close> of the active deliveries of one rider.\<close>

definition activeDeliveries :: "db \<Rightarrow> nat \<Rightarrow> nat" where
  "activeDeliveries d riderId =
     length (filter (\<lambda>x. rider_id x = Some riderId \<and> activeDelivery (status x)) (orders d))"

definition riderDeliveryCounts :: "db \<Rightarrow> user list \<Rightarrow> (user \<times> nat) list" where
  "riderDeliveryCounts d riders = map (\<lambda>r. (r, activeDeliveries d (user_id r))) riders"

text \<open>
  \<^verbatim>\<open>counts.sort((a, b) => a.count - b.count)\<close> followed by \<^verbatim>\<open>counts[0].rider\<close>. The
  sort of the language is stable, as \<open>sort_key\<close> is; reading element 0 of an empty
  array throws.
\<close>

definition selectRider :: "(user \<times> nat) list \<Rightarrow> user option" where
  "selectRider counts = (case sort_key snd counts of [] \<Rightarrow> None | c # _ \<Rightarrow> Some (fst c))"

datatype message = MustBeReady status | RiderAlreadyAssigned | NoAvailableRiders | RiderAssigned

record assignment =
  success :: bool
  rider :: "user option"
  message :: message
  alreadyAssigned :: "bool option"

definition autoAssignRider :: "db \<Rightarrow> nat \<Rightarrow> error + (db \<times> assignment)" where
  "autoAssignRider d orderId =
     (case findOrderByPk d orderId of
        None \<Rightarrow> Inl OrderNotFound
      | Some ord \<Rightarrow>
          if status ord \<noteq> Ready then
            Inr (d, \<lparr>success = False, rider = None, message = MustBeReady (status ord),
                     alreadyAssigned = None\<rparr>)
          else if truthy (rider_id ord) then
            Inr (d, \<lparr>success = True,
                     rider = (case rider_id ord of None \<Rightarrow> None | Some r \<Rightarrow> findUserByPk d r),
                     message = RiderAlreadyAssigned, alreadyAssigned = Some True\<rparr>)
          else
            let availableRiders = findAvailableRiders d 10 in
            if availableRiders = [] then
              Inr (d, \<lparr>success = False, rider = None, message = NoAvailableRiders,
                       alreadyAssigned = None\<rparr>)
            else
              (case selectRider (riderDeliveryCounts d availableRiders) of
                 None \<Rightarrow> Inl TypeError
               | Some selectedRider \<Rightarrow>
                   (case assignRider d orderId (user_id selectedRider) of
                      Inl e \<Rightarrow> Inl e
                    | Inr (d', _) \<Rightarrow>
                        Inr (d', \<lparr>success = True, rider = Some selectedRider,
                                  message = RiderAssigned, alreadyAssigned = Some False\<rparr>))))"

text \<open>
  One entry of the drain's report: the order, and either the assignment result or the
  error that the attempt threw.
\<close>

record pending_result =
  pr_order_id :: nat
  pr_order_number :: string
  pr_outcome :: "error + assignment"


text \<open>The \<^verbatim>\<open>for\<close> loop of the drain, with its \<^verbatim>\<open>try\<close>/\<^verbatim>\<open>catch\<close> around each attempt.\<close>

fun assignEach :: "db \<Rightarrow> order list \<Rightarrow> db \<times> pending_result list" where
  "assignEach d [] = (d, [])"
| "assignEach d (x # xs) =
     (case autoAssignRider d (order_id x) of
        Inl e \<Rightarrow>
          (let (d', rs) = assignEach d xs
           in (d', \<lparr>pr_order_id = order_id x, pr_order_number = order_number x,
                     pr_outcome = Inl e\<rparr> # rs))
      | Inr (d1, a) \<Rightarrow>
          (let (d', rs) = assignEach d1 xs
           in (d', \<lparr>pr_order_id = order_id x, pr_order_number = order_number x,
                     pr_outcome = Inr a\<rparr> # rs)))"

definition assignPendingReadyOrders :: "db \<Rightarrow> nat \<Rightarrow> db \<times> pending_result list" where
  "assignPendingReadyOrders d maxAssignments =
     (let pendingOrders = findAvailableForRider d maxAssignments 0 in
      if pendingOrders = [] then (d, []) else assignEach d pendingOrders)"



section \<open>Notification fanout\<close>

text \<open>
  The order object handed to \<^verbatim>\<open>notifyOrderStatusChange\<close> by the routes:
  \<^verbatim>\<open>{ id, order_number, customer_id, restaurant_id, rider_id, customer, restaurant }\<close>,
  where \<^verbatim>\<open>restaurant\<close> is \<^verbatim>\<open>{ name, owner_id }\<close> or null. The names only
  appear in message texts, which are not modelled; of the restaurant the owner is kept.
\<close>

record order_snapshot =
  sn_id :: nat
  sn_order_number :: string
  sn_customer_id :: nat
  sn_restaurant_id :: nat
  sn_rider_id :: "nat option"
  sn_restaurant_owner :: "nat option"

datatype notification_type =
    new_order
  | order_confirmed
  | order_preparing
  | order_ready
  | order_ready_for_pickup
  | order_out_for_delivery
  | order_delivered
  | order_cancelled
  | order_cancelled_restaurant
  | order_cancelled_rider

record notification =
  n_userId :: nat
  n_userRole :: role
  n_type :: notification_type

definition notify :: "nat \<Rightarrow> role \<Rightarrow> notification_type \<Rightarrow> notification" where
  "notify u r t = \<lparr>n_userId = u, n_userRole = r, n_type = t\<rparr>"

text \<open>
  The \<^verbatim>\<open>switch\<close> that fills the \<^verbatim>\<open>notifications\<close> array. Reading
  \<^verbatim>\<open>order.restaurant.owner_id\<close> of a null restaurant throws before anything is
  created.
\<close>

fun statusNotifications :: "order_snapshot \<Rightarrow> status \<Rightarrow> error + notification list" where
  "statusNotifications ord Pending =
     (case sn_restaurant_owner ord of
        None \<Rightarrow> Inl TypeError
      | Some owner \<Rightarrow> Inr [notify owner RestaurantOwner new_order])"
| "statusNotifications ord Confirmed =
     Inr [notify (sn_customer_id ord) Customer order_confirmed]"
| "statusNotifications ord Preparing =
     Inr [notify (sn_customer_id ord) Customer order_preparing]"
| "statusNotifications ord Ready =
     Inr (notify (sn_customer_id ord) Customer order_ready #
          (case sn_rider_id ord of
             None \<Rightarrow> []
           | Some r \<Rightarrow> if r \<noteq> 0 then [notify r Rider order_ready_for_pickup] else []))"
| "statusNotifications ord OutForDelivery =
     Inr [notify (sn_customer_id ord) Customer order_out_for_delivery]"
| "statusNotifications ord Delivered =
     (case sn_restaurant_owner ord of
        None \<Rightarrow> Inl TypeError
      | Some owner \<Rightarrow>
          Inr [notify (sn_customer_id ord) Customer order_delivered,
               notify owner RestaurantOwner order_delivered])"
| "statusNotifications ord Cancelled =
     (case sn_restaurant_owner ord of
        None \<Rightarrow> Inl TypeError
      | Some owner \<Rightarrow>
          Inr ([notify (sn_customer_id ord) Customer order_cancelled,
                notify owner RestaurantOwner order_cancelled_restaurant] @
               (case sn_rider_id ord of
                  None \<Rightarrow> []
                | Some r \<Rightarrow> if r \<noteq> 0 then [notify r Rider order_cancelled_rider] else [])))"

text \<open>
  The loop that creates the notifications one by one. \<open>persist\<close> tells whether the
  document store accepts a notification; a refusal is caught and reported in place.
\<close>

datatype creation = Created notification | Failed

record fanout =
  fo_success :: bool
  fo_notifications :: "creation list"
  fo_count :: nat

definition notifyOrderStatusChange ::
  "(notification \<Rightarrow> bool) \<Rightarrow> order_snapshot \<Rightarrow> status \<Rightarrow> error + fanout" where
  "notifyOrderStatusChange persist ord st =
     (case statusNotifications ord st of
        Inl e \<Rightarrow> Inl e
      | Inr notifications \<Rightarrow>
          let results = map (\<lambda>n. if persist n then Created n else Failed) notifications
          in Inr \<lparr>fo_success = True, fo_notifications = results, fo_count = length results\<rparr>)"

text \<open>The recipients of a fanout, in the order in which they are notified.\<close>

definition recipients :: "order_snapshot \<Rightarrow> status \<Rightarrow> (nat \<times> role) list" where
  "recipients ord st =
     (case statusNotifications ord st of
        Inl e \<Rightarrow> []
      | Inr ns \<Rightarrow> map (\<lambda>n. (n_userId n, n_userRole n)) ns)"

section \<open>The status route\<close>

text \<open>The request body carries the status as a string.\<close>

definition status_of_string :: "string \<Rightarrow> status option" where
  "status_of_string s =
     (if s = ''pending'' then Some Pending
      else if s = ''confirmed'' then Some Confirmed
      else if s = ''preparing'' then Some Preparing
      else if s = ''ready'' then Some Ready
      else if s = ''out_for_delivery'' then Some OutForDelivery
      else if s = ''delivered'' then Some Delivered
      else if s = ''cancelled'' then Some Cancelled
      else None)"

text \<open>
  The two \<^verbatim>\<open>validTransitions\<close> objects of the route. A status that is not a key of
  the object has no entry: the lookup gives \<^verbatim>\<open>undefined\<close>, here \<open>None\<close>.
\<close>

fun ownerTransitions :: "status \<Rightarrow> status list option" where
  "ownerTransitions Pending = Some [Confirmed]"
| "ownerTransitions Confirmed = Some [Preparing]"
| "ownerTransitions Preparing = Some [Ready]"
| "ownerTransitions _ = None"

fun riderTransitions :: "status \<Rightarrow> status list option" where
  "riderTransitions Ready = Some [OutForDelivery]"
| "riderTransitions OutForDelivery = Some [Delivered]"
| "riderTransitions _ = None"

text \<open>
  \<^verbatim>\<open>if (validTransitions[current] && !validTransitions[current].includes(target))\<close>
  rejects; an array is truthy, \<^verbatim>\<open>undefined\<close> is not.
\<close>

definition transitionRejected :: "status list option \<Rightarrow> status \<Rightarrow> bool" where
  "transitionRejected entry target =
     (case entry of None \<Rightarrow> False | Some allowed \<Rightarrow> target \<notin> set allowed)"

text \<open>The access and transition checks of the route for the two roles.\<close>

definition checkOwner :: "db \<Rightarrow> nat \<Rightarrow> order \<Rightarrow> status \<Rightarrow> error option" where
  "checkOwner d userId ord st =
     (case findRestaurantByPk d (restaurant_id ord) of
        None \<Rightarrow> Some NotYourRestaurant
      | Some restaurant \<Rightarrow>
          if owner_id restaurant \<noteq> userId then Some NotYourRestaurant
          else if st \<notin> set [Confirmed, Preparing, Ready] then Some OwnerStatusNotAllowed
          else if transitionRejected (ownerTransitions (status ord)) st
            then Some (CannotChangeStatus (status ord) st)
          else None)"

definition checkRider :: "nat \<Rightarrow> order \<Rightarrow> status \<Rightarrow> error option" where
  "checkRider userId ord st =
     (if rider_id ord \<noteq> Some userId then Some NotAssignedToYou
      else if st \<notin> set [OutForDelivery, Delivered] then Some RiderStatusNotAllowed
      else if transitionRejected (riderTransitions (status ord)) st
        then Some (CannotChangeStatus (status ord) st)
      else None)"

text \<open>
  \<^verbatim>\<open>PUT /:id/status\<close>, from the role gate to the answer. The result is the answer
  (an error, or the order as read back at the end) and the store after the request.
  The notifications and socket events of the route go to other stores and leave the
  order store as it is; they are not part of this function. The steps after the update
  (automatic assignment on \<open>Ready\<close>, backlog drain after a rider's \<open>Delivered\<close>) catch
  their own errors.
\<close>

definition updateOrderStatusRoute ::
  "db \<Rightarrow> nat \<Rightarrow> role \<Rightarrow> nat \<Rightarrow> string option \<Rightarrow> int option \<Rightarrow> int \<Rightarrow> (error + order) \<times> db" where
  "updateOrderStatusRoute d userId userRole i body_status estimated now =
     (if userRole \<notin> set [RestaurantOwner, Rider] then (Inl AccessDenied, d)
      else if body_status = None \<or> body_status = Some [] then (Inl StatusRequired, d)
      else
        (case Option.bind body_status status_of_string of
           None \<Rightarrow> (Inl InvalidStatus, d)
         | Some st \<Rightarrow>
             (case findOrderByPk d i of
                None \<Rightarrow> (Inl OrderNotFound, d)
              | Some ord \<Rightarrow>
                  (case (if userRole = RestaurantOwner then checkOwner d userId ord st
                         else checkRider userId ord st) of
                     Some e \<Rightarrow> (Inl e, d)
                   | None \<Rightarrow>
                       (let updateData = \<lparr>ad_status = Some st,
                              ad_estimated_delivery_time =
                                (case estimated of
                                   None \<Rightarrow> None
                                 | Some t \<Rightarrow> (if t \<noteq> 0 then Some t else None)),
                              ad_cancellation_reason = None\<rparr>
                        in (case updateStatus d i st updateData now of
                              Inl e \<Rightarrow> (Inl e, d)
                            | Inr (d1, updatedOrder) \<Rightarrow>
                                (let d2 = (if st = Ready \<and> \<not> truthy (rider_id updatedOrder)
                                           then (case autoAssignRider d1 i of
                                                   Inl e \<Rightarrow> d1
                                                 | Inr (d', a) \<Rightarrow> d')
                                           else d1);
                                     d3 = (if st = Delivered \<and> userRole = Rider
                                           then fst (assignPendingReadyOrders d2 1)
                                           else d2)
                                 in (case findOrderByPk d3 i of
                                       None \<Rightarrow> (Inl TypeError, d3)
                                     | Some finalOrderData \<Rightarrow> (Inr finalOrderData, d3)))))))))"

text \<open>
  The transition relation of the specification, from its role-gated table: the moves a
  restaurant owner and a rider may make.
\<close>

fun legalTransition :: "role \<Rightarrow> status \<Rightarrow> status \<Rightarrow> bool" where
  "legalTransition RestaurantOwner Pending Confirmed = True"
| "legalTransition RestaurantOwner Confirmed Preparing = True"
| "legalTransition RestaurantOwner Preparing Ready = True"
| "legalTransition Rider Ready OutForDelivery = True"
| "legalTransition Rider OutForDelivery Delivered = True"
| "legalTransition _ _ _ = False"

section \<open>Order.generateOrderNumber\<close>

text \<open>Decimal digits, \<^verbatim>\<open>toString\<close> of a non-negative integer, \<^verbatim>\<open>padStart\<close>.\<close>

definition isDigit :: "char \<Rightarrow> bool" where
  "isDigit c = (48 \<le> (of_char c :: nat) \<and> (of_char c :: nat) \<le> 57)"

definition digitValue :: "char \<Rightarrow> nat" where
  "digitValue c = of_char c - 48"

definition digitChar :: "nat \<Rightarrow> char" where
  "digitChar n = char_of (n + 48)"

fun toString :: "nat \<Rightarrow> string" where
  "toString n = (if n < 10 then [digitChar n] else toString (n div 10) @ [digitChar (n mod 10)])"

declare toString.simps [simp del]

definition padStart :: "nat \<Rightarrow> char \<Rightarrow> string \<Rightarrow> string" where
  "padStart n c s = replicate (n - length s) c @ s"

text \<open>
  \<^verbatim>\<open>parseInt\<close> on the strings that occur here: the value of the leading decimal
  digits, \<open>None\<close> (\<^verbatim>\<open>NaN\<close>) when there is none. Signs, white space and radix prefixes
  do not occur in a sequence part and are not modelled.
\<close>

definition decValue :: "string \<Rightarrow> nat" where
  "decValue ds = foldl (\<lambda>a c. 10 * a + digitValue c) 0 ds"

definition parseInt :: "string \<Rightarrow> nat option" where
  "parseInt s =
     (let ds = takeWhile isDigit s
      in if ds = [] then None else Some (decValue ds))"

text \<open>\<^verbatim>\<open>String.prototype.split\<close> with a one-character separator.\<close>

fun splitOn :: "char \<Rightarrow> string \<Rightarrow> string list" where
  "splitOn sep [] = [[]]"
| "splitOn sep (c # cs) =
     (if c = sep then [] # splitOn sep cs
      else (case splitOn sep cs of [] \<Rightarrow> [[c]] | p # ps \<Rightarrow> (c # p) # ps))"

text \<open>\<^verbatim>\<open>LIKE 'prefix%'\<close> for a prefix without wildcard characters.\<close>

definition likePrefix :: "string \<Rightarrow> string \<Rightarrow> bool" where
  "likePrefix p s = (take (length p) s = p)"

text \<open>
  \<open>today\<close> is the date part of \<^verbatim>\<open>toISOString()\<close>, such as \<^verbatim>\<open>2026-01-08\<close>; the
  global replace removes every hyphen of it.
\<close>

definition dateStr :: "string \<Rightarrow> string" where
  "dateStr today = filter (\<lambda>c. c \<noteq> CHR ''-'') today"

definition ordersOfDay :: "db \<Rightarrow> string \<Rightarrow> order list" where
  "ordersOfDay d today =
     filter (\<lambda>x. likePrefix (''ORD-'' @ dateStr today @ ''-'') (order_number x)) (orders d)"

text \<open>
  \<^verbatim>\<open>findOne\<close> with \<^verbatim>\<open>ORDER BY created_at DESC\<close>: the first row of the stable
  descending sort.
\<close>

definition lastOrderOfDay :: "db \<Rightarrow> string \<Rightarrow> order option" where
  "lastOrderOfDay d today =
     (case sort_key (\<lambda>x. - created_at x) (ordersOfDay d today) of
        [] \<Rightarrow> None
      | x # _ \<Rightarrow> Some x)"

text \<open>
  The sequence part of an order number, \<^verbatim>\<open>parseInt(number.split("-")[2])\<close>; a
  missing third part is \<^verbatim>\<open>undefined\<close> and parses to \<^verbatim>\<open>NaN\<close>.
\<close>

definition sequenceOf :: "string \<Rightarrow> nat option" where
  "sequenceOf number =
     (let parts = splitOn CHR ''-'' number
      in if 2 < length parts then parseInt (parts ! 2) else None)"

definition generateOrderNumber :: "db \<Rightarrow> string \<Rightarrow> string" where
  "generateOrderNumber d today =
     (let lastOrder = lastOrderOfDay d today;
          sequence = (case lastOrder of
                        None \<Rightarrow> Some 1
                      | Some x \<Rightarrow> map_option (\<lambda>lastSequence. lastSequence + 1)
                                    (sequenceOf (order_number x)));
          sequenceStr = padStart 3 CHR ''0''
                          (case sequence of None \<Rightarrow> ''NaN'' | Some n \<Rightarrow> toString n)
      in ''ORD-'' @ dateStr today @ ''-'' @ sequenceStr)"

text \<open>The order number of a day and a sequence, as the format of the function has it.\<close>

definition orderNumber :: "string \<Rightarrow> nat \<Rightarrow> string" where
  "orderNumber today n = ''ORD-'' @ dateStr today @ ''-'' @ padStart 3 CHR ''0'' (toString n)"




section \<open>Placing an order\<close>

definition Cart_findByUser :: "db \<Rightarrow> nat \<Rightarrow> cart option" where
  "Cart_findByUser d userId =
     (case sort_key (\<lambda>c. - cart_created_at c) (filter (\<lambda>c. cart_user_id c = userId) (carts d)) of
        [] \<Rightarrow> None
      | c # _ \<Rightarrow> Some c)"

definition CartItem_findByCart :: "db \<Rightarrow> nat \<Rightarrow> cart_item list" where
  "CartItem_findByCart d cartId =
     sort_key ci_created_at (filter (\<lambda>x. ci_cart_id x = cartId) (cart_items d))"

text \<open>
  \<^verbatim>\<open>SUM(quantity * price)\<close> over the rows of the cart, in cents; the sum over no row
  is null and becomes 0.
\<close>

definition calculateSubtotal :: "db \<Rightarrow> nat \<Rightarrow> int" where
  "calculateSubtotal d cartId =
     sum_list (map (\<lambda>x. quantity x * price x) (filter (\<lambda>x. ci_cart_id x = cartId) (cart_items d)))"

text \<open>
  \<^verbatim>\<open>Order.create\<close>: the validators of the amounts, the unique index on
  \<open>order_number\<close>, the next key of the table, the defaults of the columns.
\<close>

definition nextOrderId :: "db \<Rightarrow> nat" where
  "nextOrderId d = Suc (fold max (map order_id (orders d)) 0)"

record orderData =
  od_customer_id :: nat
  od_restaurant_id :: nat
  od_address_id :: nat
  od_subtotal :: int
  od_delivery_fee :: int
  od_total_amount :: int
  od_order_number :: string

definition Order_create :: "db \<Rightarrow> orderData \<Rightarrow> int \<Rightarrow> error + (db \<times> order)" where
  "Order_create d od now =
     (if od_subtotal od < 0 \<or> od_delivery_fee od < 0 \<or> od_total_amount od < 0
        \<or> od_order_number od = []
      then Inl ValidationError
      else if od_order_number od \<in> set (map order_number (orders d))
      then Inl UniqueConstraintError
      else
        let new = \<lparr>order_id = nextOrderId d, customer_id = od_customer_id od,
                    restaurant_id = od_restaurant_id od, address_id = od_address_id od,
                    rider_id = None, order_number = od_order_number od, status = Pending,
                    subtotal = od_subtotal od, delivery_fee = Some (od_delivery_fee od),
                    total_amount = od_total_amount od, estimated_delivery_time = None,
                    delivered_at = None, cancelled_at = None, cancellation_reason = None,
                    rider_earning = None, created_at = now\<rparr>
        in Inr (d\<lparr>orders := orders d @ [new]\<rparr>, new))"

text \<open>\<^verbatim>\<open>OrderItem.createFromCart\<close>: one row per cart item, or the first missing menu item.\<close>

fun createFromCart :: "db \<Rightarrow> nat \<Rightarrow> cart_item list \<Rightarrow> error + (db \<times> order_item list)" where
  "createFromCart d orderId [] = Inr (d, [])"
| "createFromCart d orderId (cartItem # rest) =
     (case findMenuItemByPk d (ci_menu_item_id cartItem) of
        None \<Rightarrow> Inl (MenuItemNotFound (ci_menu_item_id cartItem))
      | Some menuItem \<Rightarrow>
          let orderItem = \<lparr>oi_order_id = orderId, oi_menu_item_id = ci_menu_item_id cartItem,
                oi_quantity = quantity cartItem, oi_price = price cartItem,
                oi_item_name = mi_name menuItem\<rparr>
          in (case createFromCart (d\<lparr>order_items := order_items d @ [orderItem]\<rparr>) orderId rest of
                Inl e \<Rightarrow> Inl e
              | Inr (d', orderItems) \<Rightarrow> Inr (d', orderItem # orderItems)))"

text \<open>
  The transaction that the route opens on entry. The writes of the route go to a copy of
  the store that replaces the store on \<^verbatim>\<open>commit\<close> and is dropped on
  \<^verbatim>\<open>rollback\<close>; a route that answers without either leaves the transaction
  unfinished.
\<close>

datatype transaction = Unfinished | Committed | RolledBack

record placement =
  answer :: "error + (order \<times> order_item list)"
  transaction :: transaction
  store :: db

definition DELIVERY_FEE :: int where
  "DELIVERY_FEE = 5000"

text \<open>
  \<^verbatim>\<open>POST /\<close> of the order routes. The subtotal comes back from the store as a
  two-decimal string; the sum with the fee is stored in a two-decimal column again, so
  the amounts are exact in cents. The notifications after the commit go to other stores
  and are not part of this function.
\<close>

definition placeOrder :: "db \<Rightarrow> nat \<Rightarrow> nat option \<Rightarrow> string \<Rightarrow> int \<Rightarrow> placement" where
  "placeOrder d userId body_address_id today now =
     (case body_address_id of
        None \<Rightarrow> \<lparr>answer = Inl AddressRequired, transaction = Unfinished, store = d\<rparr>
      | Some addressId \<Rightarrow>
          (if addressId = 0 then
             \<lparr>answer = Inl AddressRequired, transaction = Unfinished, store = d\<rparr>
           else
             (case Cart_findByUser d userId of
                None \<Rightarrow> \<lparr>answer = Inl CartEmpty, transaction = Unfinished, store = d\<rparr>
              | Some cart \<Rightarrow>
                  (let cartItems = CartItem_findByCart d (cart_id cart) in
                   if cartItems = [] then
                     \<lparr>answer = Inl CartEmpty, transaction = Unfinished, store = d\<rparr>
                   else
                     (case findAddressByPk d addressId of
                        None \<Rightarrow>
                          \<lparr>answer = Inl AddressNotFound, transaction = Unfinished, store = d\<rparr>
                      | Some address \<Rightarrow>
                          (if addr_user_id address \<noteq> userId then
                             \<lparr>answer = Inl NotYourAddress, transaction = Unfinished, store = d\<rparr>
                           else if (case findRestaurantByPk d (cart_restaurant_id cart) of
                                      None \<Rightarrow> True
                                    | Some restaurant \<Rightarrow>
                                        \<not> rest_is_active restaurant
                                        \<or> \<not> is_accepting_orders restaurant) then
                             \<lparr>answer = Inl RestaurantNotAccepting, transaction = Unfinished,
                              store = d\<rparr>
                           else
                             (let subtotal = calculateSubtotal d (cart_id cart);
                                  deliveryFee = DELIVERY_FEE;
                                  totalAmount = subtotal + deliveryFee;
                                  orderData = \<lparr>od_customer_id = userId,
                                    od_restaurant_id = cart_restaurant_id cart,
                                    od_address_id = addressId,
                                    od_subtotal = subtotal, od_delivery_fee = deliveryFee,
                                    od_total_amount =
                                      (if totalAmount = 0 then subtotal + deliveryFee
                                       else totalAmount),
                                    od_order_number = generateOrderNumber d today\<rparr>
                              in (case Order_create d orderData now of
                                    Inl e \<Rightarrow>
                                      \<lparr>answer = Inl e, transaction = RolledBack, store = d\<rparr>
                                  | Inr (d1, ord) \<Rightarrow>
                                      (case createFromCart d1 (order_id ord) cartItems of
                                         Inl e \<Rightarrow>
                                           \<lparr>answer = Inl e, transaction = RolledBack, store = d\<rparr>
                                       | Inr (d2, orderItems) \<Rightarrow>
                                           (let d3 = d2\<lparr>cart_items :=
                                                  filter (\<lambda>x. ci_cart_id x \<noteq> cart_id cart)
                                                    (cart_items d2)\<rparr>;
                                                d4 = d3\<lparr>carts :=
                                                  filter (\<lambda>c. cart_id c \<noteq> cart_id cart) (carts d3)\<rparr>
                                            in \<lparr>answer = Inr (ord, orderItems),
                                                transaction = Committed, store = d4\<rparr>))))))))))"

section \<open>Concrete stores used to run the definitions\<close>

definition empty_db :: db where
  "empty_db = \<lparr>users = [], restaurants = [], orders = [], order_items = [], carts = [],
     cart_items = [], menu_items = [], addresses = []\<rparr>"

definition ex_order :: order where
  "ex_order = \<lparr>order_id = 1, customer_id = 2, restaurant_id = 3, address_id = 4, rider_id = Some 7,
     order_number = ''ORD-20260108-001'', status = OutForDelivery, subtotal = 2500,
     delivery_fee = Some 5000, total_amount = 7500, estimated_delivery_time = None,
     delivered_at = None, cancelled_at = None, cancellation_reason = None,
     rider_earning = None, created_at = 100\<rparr>"

definition ex_db :: db where
  "ex_db = empty_db\<lparr>orders := [ex_order]\<rparr>"

definition mk_order :: "nat \<Rightarrow> status \<Rightarrow> nat option \<Rightarrow> int \<Rightarrow> order" where
  "mk_order i st r t = \<lparr>order_id = i, customer_id = 2, restaurant_id = 3, address_id = 4,
     rider_id = r, order_number = ''ORD-20260108-001'', status = st, subtotal = 2500,
     delivery_fee = Some 5000, total_amount = 7500, estimated_delivery_time = None,
     delivered_at = None, cancelled_at = None, cancellation_reason = None,
     rider_earning = None, created_at = t\<rparr>"

definition mk_rider :: "nat \<Rightarrow> int \<Rightarrow> user" where
  "mk_rider i t = \<lparr>user_id = i, role = Rider, is_active = True, user_created_at = t\<rparr>"

text \<open>
  Four riders, of which 11 and 13 are busy, and two unassigned ready orders, order 3
  older than order 1.
\<close>

definition dispatch_db :: db where
  "dispatch_db = empty_db
     \<lparr>users := [mk_rider 11 1, mk_rider 12 2, mk_rider 13 3, mk_rider 14 4],
      orders := [mk_order 1 Ready None 30, mk_order 2 OutForDelivery (Some 13) 10,
                 mk_order 3 Ready None 20, mk_order 4 Delivered (Some 12) 5,
                 mk_order 5 Ready (Some 11) 25]\<rparr>"


text \<open>Riders 11, 12 and 13 with 2, 0 and 1 active deliveries.\<close>

definition loaded_db :: db where
  "loaded_db = empty_db
     \<lparr>users := [mk_rider 11 1, mk_rider 12 2, mk_rider 13 3],
      orders := [mk_order 1 Ready (Some 11) 1, mk_order 2 OutForDelivery (Some 11) 2,
                 mk_order 3 OutForDelivery (Some 13) 3, mk_order 4 Delivered (Some 12) 4]\<rparr>"

text \<open>
  A delivered order of restaurant 3, which user 9 owns, with rider 7.
\<close>

definition late_db :: db where
  "late_db = empty_db
     \<lparr>restaurants := [\<lparr>rest_id = 3, owner_id = 9, rest_is_active = True, is_accepting_orders = True\<rparr>],
      orders := [mk_order 1 Delivered (Some 7) 100]\<rparr>"

definition ex_snapshot :: order_snapshot where
  "ex_snapshot = \<lparr>sn_id = 1, sn_order_number = ''ORD-20260108-001'', sn_customer_id = 2,
     sn_restaurant_id = 3, sn_rider_id = Some 7, sn_restaurant_owner = Some 9\<rparr>"

text \<open>
  Customer 2 with a cart of item 21 twice at 10.00 and item 22 once at 5.00 from
  restaurant 3, and address 4.
\<close>

definition shop_db :: db where
  "shop_db = empty_db
     \<lparr>restaurants := [\<lparr>rest_id = 3, owner_id = 9, rest_is_active = True, is_accepting_orders = True\<rparr>],
      carts := [\<lparr>cart_id = 5, cart_user_id = 2, cart_restaurant_id = 3, cart_created_at = 50\<rparr>],
      cart_items := [\<lparr>ci_cart_id = 5, ci_menu_item_id = 21, quantity = 2, price = 1000, ci_created_at = 51\<rparr>,
                     \<lparr>ci_cart_id = 5, ci_menu_item_id = 22, quantity = 1, price = 500, ci_created_at = 52\<rparr>],
      menu_items := [\<lparr>mi_id = 21, mi_name = ''A''\<rparr>, \<lparr>mi_id = 22, mi_name = ''B''\<rparr>],
      addresses := [\<lparr>addr_id = 4, addr_user_id = 2\<rparr>]\<rparr>"




section \<open>Basic facts about the store\<close>

lemma find_Some_holds: "find P xs = Some x \<Longrightarrow> P x"
  by (induction xs) (auto split: if_splits)

lemma find_replace_key:
  "order_id new = i \<Longrightarrow> find (\<lambda>x. order_id x = i) xs = Some old \<Longrightarrow>
   find (\<lambda>x. order_id x = i) (map (\<lambda>x. if order_id x = i then new else x) xs) = Some new"
  by (induction xs) (auto split: if_splits)

lemma findOrderByPk_id: "findOrderByPk d i = Some ord \<Longrightarrow> order_id ord = i"
  unfolding findOrderByPk_def by (drule find_Some_holds) simp

lemma findOrderByPk_saveOrder:
  "findOrderByPk d i = Some old \<Longrightarrow> order_id new = i \<Longrightarrow>
   findOrderByPk (saveOrder d new) i = Some new"
  unfolding findOrderByPk_def saveOrder_def by (simp add: find_replace_key)

section \<open>Side effects of a status update\<close>

lemma toFixed2_nearest: "\<bar>of_int (toFixed2 x) - x * 100\<bar> \<le> 1 / 2"
proof (cases "x < 0")
  case True
  then have "toFixed2 x = - \<lfloor>(- x) * 100 + 1 / 2\<rfloor>" by (simp add: toFixed2_def)
  then show ?thesis by (simp only: of_int_minus) linarith
next
  case False
  then have "toFixed2 x = \<lfloor>x * 100 + 1 / 2\<rfloor>" by (simp add: toFixed2_def)
  then show ?thesis by (simp only:) linarith
qed

text \<open>
  Four fifths of a whole number of cents is never half-way between two cents, so the
  earning is the one nearest amount.
\<close>

lemma riderEarning_nearest: "\<bar>100 * riderEarning fee - 80 * fee\<bar> < 50"
proof -
  define e :: rat where "e = of_int (riderEarning fee)"
  define t :: rat where "t = of_int fee / 100 * (80 / 100) * 100"
  have "\<bar>e - t\<bar> \<le> 1 / 2"
    unfolding e_def t_def riderEarning_def parseFloat_def RIDER_EARNING_PERCENTAGE_def
    by (rule toFixed2_nearest)
  then have b: "e - t \<le> 1 / 2" "t - e \<le> 1 / 2"
    by (simp_all only: abs_le_iff minus_diff_eq)
  have t5: "5 * t = 4 * of_int fee" by (simp add: t_def)
  have "(of_int (100 * riderEarning fee - 80 * fee) :: rat) \<le> of_int 50"
    and "(of_int (80 * fee - 100 * riderEarning fee) :: rat) \<le> of_int 50"
    using b t5 by (simp_all add: e_def)
  then have a: "\<bar>100 * riderEarning fee - 80 * fee\<bar> \<le> 50"
    unfolding of_int_le_iff by linarith
  have "100 * riderEarning fee - 80 * fee = 20 * (5 * riderEarning fee - 4 * fee)" by simp
  then have "20 dvd \<bar>100 * riderEarning fee - 80 * fee\<bar>" by (metis dvd_triv_left dvd_abs_iff)
  with a show ?thesis by presburger
qed

text \<open>
  Claim C2. An update to \<open>Delivered\<close> of a stored order always succeeds, stores
  \<open>delivered_at = now\<close>, and stores as \<open>rider_earning\<close> the amount nearest to 80 percent of
  \<open>delivery_fee\<close> exactly when the order has a rider and a delivery fee; in every other
  case \<open>rider_earning\<close> keeps the value it had, so an unset earning stays unset. An
  update to \<open>Cancelled\<close> stores \<open>cancelled_at = now\<close> and clears \<open>rider_earning\<close>.
  Rider ids are keys of the user table, which start at 1.
\<close>

theorem updateStatus_side_effects:
  assumes found: "findOrderByPk d i = Some ord"
    and pos: "rider_id ord \<noteq> Some 0"
  shows "(\<exists>d' u. updateStatus d i Delivered ad now = Inr (d', u)
            \<and> findOrderByPk d' i = Some u
            \<and> delivered_at u = Some now
            \<and> rider_earning u =
                (case (rider_id ord, delivery_fee ord) of
                   (Some r, Some fee) \<Rightarrow> Some (riderEarning fee)
                 | _ \<Rightarrow> rider_earning ord))
       \<and> (\<exists>d' u. updateStatus d i Cancelled ad now = Inr (d', u)
            \<and> findOrderByPk d' i = Some u
            \<and> cancelled_at u = Some now
            \<and> rider_earning u = None)
       \<and> (\<forall>fee. \<bar>100 * riderEarning fee - 80 * fee\<bar> < 50)"
proof -
  have i: "order_id ord = i" using found by (rule findOrderByPk_id)
  have t: "truthy (rider_id ord) = (rider_id ord \<noteq> None)"
    using pos by (cases "rider_id ord") (auto simp: truthy_def)
  have A: "\<exists>d' u. updateStatus d i Delivered ad now = Inr (d', u)
            \<and> findOrderByPk d' i = Some u
            \<and> delivered_at u = Some now
            \<and> rider_earning u =
                (case (rider_id ord, delivery_fee ord) of
                   (Some r, Some fee) \<Rightarrow> Some (riderEarning fee)
                 | _ \<Rightarrow> rider_earning ord)"
    using found i t
    by (cases "rider_id ord"; cases "delivery_fee ord")
       (simp_all add: updateStatus_def Let_def spreadData_def findOrderByPk_saveOrder)
  have B: "\<exists>d' u. updateStatus d i Cancelled ad now = Inr (d', u)
            \<and> findOrderByPk d' i = Some u
            \<and> cancelled_at u = Some now
            \<and> rider_earning u = None"
    using found i
    by (simp add: updateStatus_def Let_def spreadData_def findOrderByPk_saveOrder)
  from A B riderEarning_nearest show ?thesis by blast
qed

theorem updateStatus_side_effects_witness:
  "findOrderByPk ex_db 1 = Some ex_order \<and> rider_id ex_order \<noteq> Some 0
   \<and> (\<exists>d' u. updateStatus ex_db 1 Delivered noData 555 = Inr (d', u)
         \<and> delivered_at u = Some 555 \<and> rider_earning u = Some 4000)
   \<and> (\<exists>d' u. updateStatus ex_db 1 Cancelled noData 555 = Inr (d', u)
         \<and> cancelled_at u = Some 555 \<and> rider_earning u = None)"
proof -
  have f: "findOrderByPk ex_db 1 = Some ex_order"
    by (simp add: findOrderByPk_def ex_db_def empty_db_def ex_order_def)
  have p: "rider_id ex_order \<noteq> Some 0" by (simp add: ex_order_def)
  have e: "riderEarning 5000 = 4000" by code_simp
  have r: "rider_id ex_order = Some 7" "delivery_fee ex_order = Some 5000"
    by (simp_all add: ex_order_def)
  from updateStatus_side_effects [OF f p, of noData 555] f p e r show ?thesis
    by auto
qed

section \<open>Rider selection\<close>

text \<open>The head of a stable sort is the first element of the least key.\<close>

lemma sort_key_head_first_min:
  "sort_key f xs = y # ys \<Longrightarrow>
   \<exists>pre post. xs = pre @ y # post \<and> (\<forall>z\<in>set pre. f y < f z) \<and> (\<forall>z\<in>set post. f y \<le> f z)"
proof (induction xs arbitrary: y ys)
  case Nil
  then show ?case by simp
next
  case (Cons a xs)
  show ?case
  proof (cases "sort_key f xs")
    case Nil
    then have "xs = []" by (metis length_sort list.size(3) length_0_conv)
    with Cons.prems have "a = y" by simp
    with \<open>xs = []\<close> show ?thesis by (intro exI [of _ "[]"]) simp
  next
    case (Cons y' ys')
    from Cons.IH [OF this] obtain pre post where
      xs: "xs = pre @ y' # post" and pre: "\<forall>z\<in>set pre. f y' < f z" and post: "\<forall>z\<in>set post. f y' \<le> f z"
      by blast
    show ?thesis
    proof (cases "f a \<le> f y'")
      case True
      with Cons Cons.prems have "y = a" by simp
      moreover have "\<forall>z\<in>set xs. f a \<le> f z" using True xs pre post by fastforce
      ultimately show ?thesis by (intro exI [of _ "[]"] exI [of _ xs]) simp
    next
      case False
      with Cons Cons.prems have "y = y'" by simp
      then show ?thesis using False xs pre post
        by (intro exI [of _ "a # pre"] exI [of _ post]) auto
    qed
  qed
qed

lemma selectRider_first_min:
  assumes "counts \<noteq> []"
  shows "\<exists>pre sel n post. selectRider counts = Some sel \<and> counts = pre @ (sel, n) # post
           \<and> (\<forall>c\<in>set pre. n < snd c) \<and> (\<forall>c\<in>set post. n \<le> snd c)"
proof -
  from assms have "sort_key snd counts \<noteq> []" by (metis length_sort length_0_conv)
  then obtain c cs where s: "sort_key snd counts = c # cs" by (cases "sort_key snd counts") auto
  from sort_key_head_first_min [OF s] obtain pre post where
    "counts = pre @ c # post" "\<forall>z\<in>set pre. snd c < snd z" "\<forall>z\<in>set post. snd c \<le> snd z" by blast
  then show ?thesis using s
    by (intro exI [of _ pre] exI [of _ "fst c"] exI [of _ "snd c"] exI [of _ post])
       (simp add: selectRider_def)
qed

lemma idle_if_available:
  assumes r: "r \<in> set (findAvailableRiders d limit)" and nz: "user_id r \<noteq> 0"
  shows "activeDeliveries d (user_id r) = 0"
proof -
  let ?all = "findByRole d Rider 100"
  let ?ids = "map user_id ?all"
  let ?busy = "remdups (map rider_id
              (filter (\<lambda>x. (case rider_id x of None \<Rightarrow> False | Some r \<Rightarrow> r \<in> set ?ids)
                            \<and> activeDelivery (status x)) (orders d)))"
  from r have ne: "?all \<noteq> []" by (auto simp: findAvailableRiders_def Let_def split: if_splits)
  with r have "r \<in> set (take limit (filter (\<lambda>r. Some (user_id r) \<notin> set (filter truthy ?busy)) ?all))"
    by (simp add: findAvailableRiders_def Let_def)
  then have "r \<in> set (filter (\<lambda>r. Some (user_id r) \<notin> set (filter truthy ?busy)) ?all)"
    by (rule in_set_takeD)
  then have mem: "r \<in> set ?all" and nb: "Some (user_id r) \<notin> set (filter truthy ?busy)" by auto
  have "\<not> (rider_id x = Some (user_id r) \<and> activeDelivery (status x))" if x: "x \<in> set (orders d)" for x
  proof
    assume a: "rider_id x = Some (user_id r) \<and> activeDelivery (status x)"
    with mem x have "Some (user_id r) \<in> set ?busy" by force
    moreover have "truthy (Some (user_id r))" using nz by (simp add: truthy_def)
    ultimately show False using nb by simp
  qed
  then show ?thesis by (simp add: activeDeliveries_def filter_empty_conv)
qed

lemma findByRole_subset: "set (findByRole d r limit) \<subseteq> set (users d)"
  unfolding findByRole_def by (auto dest: in_set_takeD)

lemma findAvailableRiders_subset: "set (findAvailableRiders d limit) \<subseteq> set (users d)"
  using findByRole_subset [of d Rider 100]
  by (auto simp: findAvailableRiders_def Let_def dest!: in_set_takeD)

lemma selectRider_counts_first_min:
  assumes "cs \<noteq> []"
  shows "\<exists>pre sel post. selectRider (riderDeliveryCounts d cs) = Some sel \<and> cs = pre @ sel # post
           \<and> (\<forall>c\<in>set pre. activeDeliveries d (user_id sel) < activeDeliveries d (user_id c))
           \<and> (\<forall>c\<in>set post. activeDeliveries d (user_id sel) \<le> activeDeliveries d (user_id c))"
proof -
  let ?g = "\<lambda>r. (r, activeDeliveries d (user_id r))"
  from assms have "riderDeliveryCounts d cs \<noteq> []" by (simp add: riderDeliveryCounts_def)
  from selectRider_first_min [OF this] obtain pre sel n post where
    s: "selectRider (riderDeliveryCounts d cs) = Some sel"
    and eq: "map ?g cs = pre @ (sel, n) # post"
    and lo: "\<forall>c\<in>set pre. n < snd c" and hi: "\<forall>c\<in>set post. n \<le> snd c"
    unfolding riderDeliveryCounts_def by blast
  from eq obtain p1 x p2 where cs: "cs = p1 @ x # p2" and p1: "map ?g p1 = pre"
    and x: "?g x = (sel, n)" and p2: "map ?g p2 = post"
    by (auto simp: map_eq_append_conv map_eq_Cons_conv)
  from x have "x = sel" "n = activeDeliveries d (user_id sel)" by auto
  with cs p1 p2 lo hi s show ?thesis
    by (intro exI [of _ p1] exI [of _ sel] exI [of _ p2]) auto
qed

lemma assignRider_ready:
  "findOrderByPk d i = Some ord \<Longrightarrow> status ord = Ready \<Longrightarrow>
   assignRider d i rid = Inr (saveOrder d (ord\<lparr>rider_id := Some rid\<rparr>), ord\<lparr>rider_id := Some rid\<rparr>)"
  by (simp add: assignRider_def Let_def)

lemma autoAssignRider_selects:
  assumes found: "findOrderByPk d i = Some ord"
    and ready: "status ord = Ready"
    and free: "\<not> truthy (rider_id ord)"
    and sel: "selectRider (riderDeliveryCounts d (findAvailableRiders d 10)) = Some sel"
    and ne: "findAvailableRiders d 10 \<noteq> []"
  shows "autoAssignRider d i =
           Inr (saveOrder d (ord\<lparr>rider_id := Some (user_id sel)\<rparr>),
                \<lparr>success = True, rider = Some sel, message = RiderAssigned,
                 alreadyAssigned = Some False\<rparr>)"
  using assms by (simp add: autoAssignRider_def Let_def assignRider_ready)


text \<open>
  Claim C5. On a ready order without a rider and a non-empty pool of available riders,
  \<open>autoAssignRider\<close> counts for each candidate the orders it holds in \<open>Ready\<close> or
  \<open>OutForDelivery\<close> and assigns the order to the candidate of the least count, the first
  such candidate of the pool on a tie: every candidate before the selected one has a
  strictly larger count, every candidate after it a count at least as large. The selection
  step does the same on any non-empty list of candidates \<open>cs\<close>. With counts 2, 0 and 1
  the selection is the rider of count 0.
\<close>

theorem autoAssignRider_least_loaded:
  assumes found: "findOrderByPk d i = Some ord"
    and ready: "status ord = Ready"
    and free: "\<not> truthy (rider_id ord)"
    and ne: "findAvailableRiders d 10 \<noteq> []"
  shows "(\<exists>d' sel pre post.
            autoAssignRider d i =
              Inr (d', \<lparr>success = True, rider = Some sel, message = RiderAssigned,
                        alreadyAssigned = Some False\<rparr>)
          \<and> findOrderByPk d' i = Some (ord\<lparr>rider_id := Some (user_id sel)\<rparr>)
          \<and> selectRider (riderDeliveryCounts d (findAvailableRiders d 10)) = Some sel
          \<and> findAvailableRiders d 10 = pre @ sel # post
          \<and> (\<forall>c\<in>set pre. activeDeliveries d (user_id sel) < activeDeliveries d (user_id c))
          \<and> (\<forall>c\<in>set post. activeDeliveries d (user_id sel) \<le> activeDeliveries d (user_id c)))
       \<and> (cs \<noteq> [] \<longrightarrow>
            (\<exists>pre sel post.
                selectRider (riderDeliveryCounts d cs) = Some sel \<and> cs = pre @ sel # post
              \<and> (\<forall>c\<in>set pre. activeDeliveries d (user_id sel) < activeDeliveries d (user_id c))
              \<and> (\<forall>c\<in>set post. activeDeliveries d (user_id sel) \<le> activeDeliveries d (user_id c))))
       \<and> selectRider [(a, 2), (b, 0), (c, 1)] = Some b"
proof -
  from selectRider_counts_first_min [OF ne, of d] obtain pre sel post where
    s: "selectRider (riderDeliveryCounts d (findAvailableRiders d 10)) = Some sel"
    and eq: "findAvailableRiders d 10 = pre @ sel # post"
    and lo: "\<forall>c\<in>set pre. activeDeliveries d (user_id sel) < activeDeliveries d (user_id c)"
    and hi: "\<forall>c\<in>set post. activeDeliveries d (user_id sel) \<le> activeDeliveries d (user_id c)"
    by blast
  have i: "order_id ord = i" using found by (rule findOrderByPk_id)
  have "findOrderByPk (saveOrder d (ord\<lparr>rider_id := Some (user_id sel)\<rparr>)) i
          = Some (ord\<lparr>rider_id := Some (user_id sel)\<rparr>)"
    using found i by (simp add: findOrderByPk_saveOrder)
  with autoAssignRider_selects [OF found ready free s ne] s eq lo hi
  have "\<exists>d' sel pre post.
            autoAssignRider d i =
              Inr (d', \<lparr>success = True, rider = Some sel, message = RiderAssigned,
                        alreadyAssigned = Some False\<rparr>)
          \<and> findOrderByPk d' i = Some (ord\<lparr>rider_id := Some (user_id sel)\<rparr>)
          \<and> selectRider (riderDeliveryCounts d (findAvailableRiders d 10)) = Some sel
          \<and> findAvailableRiders d 10 = pre @ sel # post
          \<and> (\<forall>c\<in>set pre. activeDeliveries d (user_id sel) < activeDeliveries d (user_id c))
          \<and> (\<forall>c\<in>set post. activeDeliveries d (user_id sel) \<le> activeDeliveries d (user_id c))"
    by blast
  moreover have "selectRider [(a, 2), (b, 0), (c, 1)] = Some b"
    by (simp add: selectRider_def)
  moreover have "cs \<noteq> [] \<longrightarrow>
            (\<exists>pre sel post.
                selectRider (riderDeliveryCounts d cs) = Some sel \<and> cs = pre @ sel # post
              \<and> (\<forall>c\<in>set pre. activeDeliveries d (user_id sel) < activeDeliveries d (user_id c))
              \<and> (\<forall>c\<in>set post. activeDeliveries d (user_id sel) \<le> activeDeliveries d (user_id c)))"
    using selectRider_counts_first_min [of cs d] by blast
  ultimately show ?thesis by blast
qed


theorem autoAssignRider_least_loaded_witness:
  "findOrderByPk dispatch_db 1 = Some (mk_order 1 Ready None 30)
   \<and> status (mk_order 1 Ready None 30) = Ready
   \<and> \<not> truthy (rider_id (mk_order 1 Ready None 30))
   \<and> findAvailableRiders dispatch_db 10 = [mk_rider 14 4, mk_rider 12 2]
   \<and> (\<exists>d'. autoAssignRider dispatch_db 1 =
              Inr (d', \<lparr>success = True, rider = Some (mk_rider 14 4), message = RiderAssigned,
                        alreadyAssigned = Some False\<rparr>))
   \<and> users dispatch_db \<noteq> []
   \<and> map snd (riderDeliveryCounts dispatch_db (users dispatch_db)) = [1, 0, 1, 0]
   \<and> selectRider (riderDeliveryCounts dispatch_db (users dispatch_db)) = Some (mk_rider 12 2)
   \<and> riderDeliveryCounts loaded_db [mk_rider 11 1, mk_rider 12 2, mk_rider 13 3]
        = [(mk_rider 11 1, 2), (mk_rider 12 2, 0), (mk_rider 13 3, 1)]
   \<and> selectRider [(mk_rider 11 1, 2), (mk_rider 12 2, 0), (mk_rider 13 3, 1)] = Some (mk_rider 12 2)"
proof -
  have m: "map snd (riderDeliveryCounts dispatch_db (users dispatch_db)) = [1, 0, 1, 0]"
    by code_simp
  have h1: "findOrderByPk dispatch_db 1 = Some (mk_order 1 Ready None 30)" by code_simp
  have h2: "status (mk_order 1 Ready None 30) = Ready" by code_simp
  have h3: "\<not> truthy (rider_id (mk_order 1 Ready None 30))" by code_simp
  have av: "findAvailableRiders dispatch_db 10 = [mk_rider 14 4, mk_rider 12 2]" by code_simp
  have h4: "findAvailableRiders dispatch_db 10 \<noteq> []" by (simp add: av)
  have s: "selectRider (riderDeliveryCounts dispatch_db (findAvailableRiders dispatch_db 10))
             = Some (mk_rider 14 4)" by code_simp
  have c: "riderDeliveryCounts loaded_db [mk_rider 11 1, mk_rider 12 2, mk_rider 13 3]
        = [(mk_rider 11 1, 2), (mk_rider 12 2, 0), (mk_rider 13 3, 1)]" by code_simp
  have n: "users dispatch_db \<noteq> []" by code_simp
  have t: "selectRider (riderDeliveryCounts dispatch_db (users dispatch_db)) = Some (mk_rider 12 2)"
    by code_simp
  from autoAssignRider_least_loaded [OF h1 h2 h3 h4, where cs = "users dispatch_db"
      and a = "mk_rider 11 1" and b = "mk_rider 12 2" and c = "mk_rider 13 3"]
    h1 h2 h3 av s c n t m
  show ?thesis by auto
qed

text \<open>
  Claim C10. With user keys starting at 1, every rider that the availability filter returns
  holds no order in \<open>Ready\<close> or \<open>OutForDelivery\<close> in the same store, so each count of
  the least-loaded step is 0 and \<open>autoAssignRider\<close> assigns the first rider of the
  available list.
\<close>

theorem available_riders_carry_no_load:
  assumes ids: "\<forall>u\<in>set (users d). user_id u \<noteq> 0"
  shows "(\<forall>c\<in>set (findAvailableRiders d limit). activeDeliveries d (user_id c) = 0)
       \<and> (findOrderByPk d i = Some ord \<and> status ord = Ready \<and> \<not> truthy (rider_id ord)
            \<and> findAvailableRiders d 10 = r # rs
          \<longrightarrow> autoAssignRider d i =
                Inr (saveOrder d (ord\<lparr>rider_id := Some (user_id r)\<rparr>),
                     \<lparr>success = True, rider = Some r, message = RiderAssigned,
                      alreadyAssigned = Some False\<rparr>))"
proof -
  have idle: "activeDeliveries d (user_id c) = 0" if "c \<in> set (findAvailableRiders d l)" for c l
    using that ids findAvailableRiders_subset [of d l] idle_if_available [of c d l] by blast
  have sel: "autoAssignRider d i =
                Inr (saveOrder d (ord\<lparr>rider_id := Some (user_id r)\<rparr>),
                     \<lparr>success = True, rider = Some r, message = RiderAssigned,
                      alreadyAssigned = Some False\<rparr>)"
    if found: "findOrderByPk d i = Some ord" and ready: "status ord = Ready"
      and free: "\<not> truthy (rider_id ord)" and av: "findAvailableRiders d 10 = r # rs"
  proof -
    have ne: "findAvailableRiders d 10 \<noteq> []" using av by simp
    from selectRider_counts_first_min [OF ne, of d] obtain pre sel post where
      s: "selectRider (riderDeliveryCounts d (findAvailableRiders d 10)) = Some sel"
      and eq: "findAvailableRiders d 10 = pre @ sel # post"
      and lo: "\<forall>c\<in>set pre. activeDeliveries d (user_id sel) < activeDeliveries d (user_id c)"
      by blast
    have "pre = []"
    proof (rule ccontr)
      assume "pre \<noteq> []"
      then obtain p where p: "p \<in> set pre" by (cases pre) auto
      then have "p \<in> set (findAvailableRiders d 10)" using eq by simp
      from idle [OF this] lo p show False by force
    qed
    with eq av have "sel = r" by simp
    with autoAssignRider_selects [OF found ready free s ne] show ?thesis by simp
  qed
  from idle sel show ?thesis by blast
qed

theorem available_riders_carry_no_load_witness:
  "map user_id (users dispatch_db) = [11, 12, 13, 14]
   \<and> findOrderByPk dispatch_db 1 = Some (mk_order 1 Ready None 30)
   \<and> status (mk_order 1 Ready None 30) = Ready
   \<and> \<not> truthy (rider_id (mk_order 1 Ready None 30))
   \<and> findAvailableRiders dispatch_db 10 = [mk_rider 14 4, mk_rider 12 2]
   \<and> map (\<lambda>c. activeDeliveries dispatch_db (user_id c)) (findAvailableRiders dispatch_db 10) = [0, 0]
   \<and> autoAssignRider dispatch_db 1 =
         Inr (saveOrder dispatch_db ((mk_order 1 Ready None 30)\<lparr>rider_id := Some (user_id (mk_rider 14 4))\<rparr>),
              \<lparr>success = True, rider = Some (mk_rider 14 4), message = RiderAssigned,
               alreadyAssigned = Some False\<rparr>)"
proof -
  have ids: "map user_id (users dispatch_db) = [11, 12, 13, 14]" by code_simp
  have h0: "\<forall>u\<in>set (users dispatch_db). user_id u \<noteq> 0"
    by (simp add: dispatch_db_def empty_db_def mk_rider_def)
  have h1: "findOrderByPk dispatch_db 1 = Some (mk_order 1 Ready None 30)" by code_simp
  have h2: "status (mk_order 1 Ready None 30) = Ready" by code_simp
  have h3: "\<not> truthy (rider_id (mk_order 1 Ready None 30))" by code_simp
  have av: "findAvailableRiders dispatch_db 10 = [mk_rider 14 4, mk_rider 12 2]" by code_simp
  from available_riders_carry_no_load [OF h0, of 10 1 "mk_order 1 Ready None 30" "mk_rider 14 4" "[mk_rider 12 2]"]
    h1 h2 h3 av ids
  show ?thesis by simp
qed

section \<open>Orders that already have a rider\<close>

lemma find_replace_other:
  "order_id new \<noteq> i \<Longrightarrow>
   find (\<lambda>x. order_id x = i) (map (\<lambda>x. if order_id x = order_id new then new else x) xs)
     = find (\<lambda>x. order_id x = i) xs"
  by (induction xs) auto

lemma findOrderByPk_saveOrder_other:
  "order_id new \<noteq> i \<Longrightarrow> findOrderByPk (saveOrder d new) i = findOrderByPk d i"
  unfolding findOrderByPk_def saveOrder_def by (simp add: find_replace_other)

lemma autoAssignRider_assigned:
  assumes found: "findOrderByPk d i = Some ord" and r: "rider_id ord = Some r" and pos: "r \<noteq> 0"
  shows "autoAssignRider d i =
           Inr (d, if status ord = Ready
                   then \<lparr>success = True, rider = findUserByPk d r, message = RiderAlreadyAssigned,
                         alreadyAssigned = Some True\<rparr>
                   else \<lparr>success = False, rider = None, message = MustBeReady (status ord),
                         alreadyAssigned = None\<rparr>)"
  using assms by (simp add: autoAssignRider_def truthy_def)

lemma autoAssignRider_changes:
  assumes "autoAssignRider d j = Inr (d', a)"
  shows "d' = d \<or> (\<exists>ordj rid. findOrderByPk d j = Some ordj \<and> \<not> truthy (rider_id ordj)
                      \<and> d' = saveOrder d (ordj\<lparr>rider_id := Some rid\<rparr>))"
  using assms
  by (auto simp: autoAssignRider_def assignRider_def Let_def
           split: option.splits if_splits sum.splits)

lemma autoAssignRider_preserves_assigned:
  assumes found: "findOrderByPk d i = Some ord" and r: "rider_id ord = Some r" and pos: "r \<noteq> 0"
    and run: "autoAssignRider d j = Inr (d', a)"
  shows "findOrderByPk d' i = Some ord"
proof -
  from autoAssignRider_changes [OF run] show ?thesis
  proof
    assume "d' = d" with found show ?thesis by simp
  next
    assume "\<exists>ordj rid. findOrderByPk d j = Some ordj \<and> \<not> truthy (rider_id ordj)
                      \<and> d' = saveOrder d (ordj\<lparr>rider_id := Some rid\<rparr>)"
    then obtain ordj rid where j: "findOrderByPk d j = Some ordj" and f: "\<not> truthy (rider_id ordj)"
      and d': "d' = saveOrder d (ordj\<lparr>rider_id := Some rid\<rparr>)" by blast
    have "truthy (rider_id ord)" using r pos by (simp add: truthy_def)
    with f j found have "j \<noteq> i" by auto
    moreover have "order_id ordj = j" using j by (rule findOrderByPk_id)
    ultimately show ?thesis using d' found by (simp add: findOrderByPk_saveOrder_other)
  qed
qed

lemma assignEach_preserves_assigned:
  assumes r: "rider_id ord = Some r" and pos: "r \<noteq> 0"
  shows "findOrderByPk d i = Some ord \<Longrightarrow> findOrderByPk (fst (assignEach d xs)) i = Some ord"
proof (induction xs arbitrary: d)
  case Nil
  then show ?case by simp
next
  case (Cons x xs)
  show ?case
  proof (cases "autoAssignRider d (order_id x)")
    case (Inl e)
    with Cons show ?thesis by (simp add: split_beta Let_def)
  next
    case (Inr p)
    obtain d1 a where p: "p = (d1, a)" by (cases p)
    with Inr have "findOrderByPk d1 i = Some ord"
      using autoAssignRider_preserves_assigned [OF Cons.prems r pos] by blast
    from Cons.IH [OF this] Inr p show ?thesis by (simp add: split_beta Let_def)
  qed
qed


text \<open>
  Claim C4, as the code has it. \<open>autoAssignRider\<close> tests the status before the rider: on an
  order with a rider it reports the existing assignment as a success only when the order is
  in \<open>Ready\<close>, and declines in every other status. On the claim as stated, the order of
  \<open>ex_db\<close> has a rider and is out for delivery, and the call declines.
\<close>

theorem assigned_order_not_ready_declined_counterexample:
  "rider_id ex_order = Some 7
   \<and> findOrderByPk ex_db 1 = Some ex_order
   \<and> autoAssignRider ex_db 1 =
         Inr (ex_db, \<lparr>success = False, rider = None, message = MustBeReady OutForDelivery,
                      alreadyAssigned = None\<rparr>)"
  by code_simp

text \<open>
  Claim C4, amended. For an order with a rider, \<open>autoAssignRider\<close> returns without
  changing the store: a success that reports the assigned rider when the order is in
  \<open>Ready\<close>, a declined result otherwise. No call of \<open>autoAssignRider\<close>, on this or any
  other order, and no backlog drain changes the order, so its rider is never replaced and
  a repeated call gives the same answer.
\<close>

theorem autoAssignRider_idempotent:
  assumes found: "findOrderByPk d i = Some ord" and r: "rider_id ord = Some r" and pos: "r \<noteq> 0"
  shows "(status ord = Ready \<longrightarrow>
            autoAssignRider d i =
              Inr (d, \<lparr>success = True, rider = findUserByPk d r, message = RiderAlreadyAssigned,
                       alreadyAssigned = Some True\<rparr>))
       \<and> (status ord \<noteq> Ready \<longrightarrow>
            autoAssignRider d i =
              Inr (d, \<lparr>success = False, rider = None, message = MustBeReady (status ord),
                       alreadyAssigned = None\<rparr>))
       \<and> (\<forall>j d' a. autoAssignRider d j = Inr (d', a) \<longrightarrow> findOrderByPk d' i = Some ord)
       \<and> (\<forall>n. findOrderByPk (fst (assignPendingReadyOrders d n)) i = Some ord)"
proof -
  have "findOrderByPk (fst (assignPendingReadyOrders d n)) i = Some ord" for n
    using found assignEach_preserves_assigned [OF r pos found]
    by (simp add: assignPendingReadyOrders_def Let_def)
  with autoAssignRider_assigned [OF found r pos]
    autoAssignRider_preserves_assigned [OF found r pos]
  show ?thesis by auto
qed


theorem autoAssignRider_idempotent_witness:
  "findOrderByPk dispatch_db 5 = Some (mk_order 5 Ready (Some 11) 25)
   \<and> rider_id (mk_order 5 Ready (Some 11) 25) = Some 11 \<and> (11::nat) \<noteq> 0
   \<and> autoAssignRider dispatch_db 5 =
         Inr (dispatch_db, \<lparr>success = True, rider = Some (mk_rider 11 1),
                message = RiderAlreadyAssigned, alreadyAssigned = Some True\<rparr>)
   \<and> (\<exists>d' a. autoAssignRider dispatch_db 1 = Inr (d', a) \<and> success a
          \<and> findOrderByPk d' 5 = Some (mk_order 5 Ready (Some 11) 25))
   \<and> findOrderByPk (fst (assignPendingReadyOrders dispatch_db 3)) 5
         = Some (mk_order 5 Ready (Some 11) 25)
   \<and> findOrderByPk dispatch_db 2 = Some (mk_order 2 OutForDelivery (Some 13) 10)
   \<and> autoAssignRider dispatch_db 2 =
         Inr (dispatch_db, \<lparr>success = False, rider = None,
                message = MustBeReady OutForDelivery, alreadyAssigned = None\<rparr>)"
proof -
  have h1: "findOrderByPk dispatch_db 5 = Some (mk_order 5 Ready (Some 11) 25)" by code_simp
  have h2: "rider_id (mk_order 5 Ready (Some 11) 25) = Some 11" by code_simp
  have h3: "(11::nat) \<noteq> 0" by simp
  have s: "status (mk_order 5 Ready (Some 11) 25) = Ready" by code_simp
  have u: "findUserByPk dispatch_db 11 = Some (mk_rider 11 1)" by code_simp
  have k1: "findOrderByPk dispatch_db 2 = Some (mk_order 2 OutForDelivery (Some 13) 10)"
    by code_simp
  have k2: "rider_id (mk_order 2 OutForDelivery (Some 13) 10) = Some 13" by code_simp
  have k3: "(13::nat) \<noteq> 0" by simp
  have t: "status (mk_order 2 OutForDelivery (Some 13) 10) = OutForDelivery" by code_simp
  have "case autoAssignRider dispatch_db 1 of Inl e \<Rightarrow> False | Inr (d', a) \<Rightarrow> success a"
    by code_simp
  then obtain d1 a1 where r: "autoAssignRider dispatch_db 1 = Inr (d1, a1)" and a1: "success a1"
    by (auto split: sum.splits)
  note first = autoAssignRider_idempotent [OF h1 h2 h3]
  note second = autoAssignRider_idempotent [OF k1 k2 k3]
  from first r have keep: "findOrderByPk d1 5 = Some (mk_order 5 Ready (Some 11) 25)" by blast
  from first s u have ready: "autoAssignRider dispatch_db 5 =
         Inr (dispatch_db, \<lparr>success = True, rider = Some (mk_rider 11 1),
                message = RiderAlreadyAssigned, alreadyAssigned = Some True\<rparr>)" by simp
  from first have drain: "findOrderByPk (fst (assignPendingReadyOrders dispatch_db 3)) 5
         = Some (mk_order 5 Ready (Some 11) 25)" by blast
  from second t have declined: "autoAssignRider dispatch_db 2 =
         Inr (dispatch_db, \<lparr>success = False, rider = None,
                message = MustBeReady OutForDelivery, alreadyAssigned = None\<rparr>)" by simp
  from h1 h2 h3 ready r a1 keep drain k1 declined show ?thesis by blast
qed

section \<open>The backlog drain\<close>







section \<open>Status transitions through the route\<close>

text \<open>
  What the two checks accept: the moves of the transition table, and every allowed target
  from a current status that has no entry in \<^verbatim>\<open>validTransitions\<close>.
\<close>

lemma checkOwner_accepts:
  "checkOwner d u ord st = None \<longleftrightarrow>
     (\<exists>r. findRestaurantByPk d (restaurant_id ord) = Some r \<and> owner_id r = u)
     \<and> (legalTransition RestaurantOwner (status ord) st
        \<or> (ownerTransitions (status ord) = None \<and> st \<in> {Confirmed, Preparing, Ready}))"
  by (cases "status ord"; cases st)
     (auto simp: checkOwner_def transitionRejected_def split: option.splits)

lemma checkRider_accepts:
  "checkRider u ord st = None \<longleftrightarrow>
     rider_id ord = Some u
     \<and> (legalTransition Rider (status ord) st
        \<or> (riderTransitions (status ord) = None \<and> st \<in> {OutForDelivery, Delivered}))"
  by (cases "status ord"; cases st)
     (auto simp: checkRider_def transitionRejected_def split: option.splits)


text \<open>
  Claim C1: a status update by a restaurant owner or a rider moves an order along the
  transition table only, whatever the current status. The route tests the target only
  when the current status is a key of its \<^verbatim>\<open>validTransitions\<close> object. For the
  delivered order of \<open>late_db\<close> the owner's request for \<^verbatim>\<open>confirmed\<close> is answered
  with the updated order and the stored status becomes \<open>Confirmed\<close>; the rider's request
  for \<^verbatim>\<open>out_for_delivery\<close> on the same order is accepted as well. Neither move is in
  the table.
\<close>

theorem status_route_leaves_state_machine:
  "map_option status (findOrderByPk late_db 1) = Some Delivered
   \<and> fst (updateOrderStatusRoute late_db 9 RestaurantOwner 1 (Some ''confirmed'') None 555)
       = Inr ((mk_order 1 Delivered (Some 7) 100)\<lparr>status := Confirmed\<rparr>)
   \<and> map_option status
        (findOrderByPk (snd (updateOrderStatusRoute late_db 9 RestaurantOwner 1 (Some ''confirmed'') None 555)) 1)
       = Some Confirmed
   \<and> \<not> legalTransition RestaurantOwner Delivered Confirmed
   \<and> map_option status
        (findOrderByPk (snd (updateOrderStatusRoute late_db 7 Rider 1 (Some ''out_for_delivery'') None 555)) 1)
       = Some OutForDelivery
   \<and> \<not> legalTransition Rider Delivered OutForDelivery"
  by code_simp


section \<open>Recipients of the fanout\<close>

text \<open>
  Claim C3, on the claim as stated: for an order with customer 2, owner 9 and rider 7
  the transition to \<open>OutForDelivery\<close> notifies the customer alone, not the owner, and the
  transition to \<open>Delivered\<close> notifies customer and owner, not the rider.
\<close>

theorem fanout_out_for_delivery_counterexample:
  "recipients ex_snapshot OutForDelivery = [(2, Customer)]
   \<and> sn_restaurant_owner ex_snapshot = Some 9
   \<and> (9, RestaurantOwner) \<notin> set (recipients ex_snapshot OutForDelivery)
   \<and> sn_rider_id ex_snapshot = Some 7
   \<and> recipients ex_snapshot Delivered = [(2, Customer), (9, RestaurantOwner)]
   \<and> (7, Rider) \<notin> set (recipients ex_snapshot Delivered)"
  by code_simp


lemma statusNotifications_total:
  "sn_restaurant_owner ord = Some owner \<Longrightarrow> \<exists>ns. statusNotifications ord st = Inr ns"
  by (cases st) simp_all


text \<open>
  Claim C3, amended. For an order whose restaurant is known, the fanout notifies: on
  \<open>Pending\<close> the restaurant owner; on \<open>Confirmed\<close>, \<open>Preparing\<close> and
  \<open>OutForDelivery\<close> the customer; on \<open>Ready\<close> the customer and the rider if one is
  assigned; on \<open>Delivered\<close> the customer and the restaurant owner; on \<open>Cancelled\<close> the
  customer, the restaurant owner and the rider if one is assigned. The report of
  \<open>notifyOrderStatusChange\<close> has one entry for each of these recipients, in this order:
  the notification created for that recipient, or a failure where the store refused it;
  when the store accepts all, every recipient has its notification.
\<close>

theorem fanout_recipients:
  assumes owner: "sn_restaurant_owner ord = Some owner"
    and rider: "sn_rider_id ord \<noteq> Some 0"
  shows "recipients ord Pending = [(owner, RestaurantOwner)]
       \<and> recipients ord Confirmed = [(sn_customer_id ord, Customer)]
       \<and> recipients ord Preparing = [(sn_customer_id ord, Customer)]
       \<and> recipients ord Ready =
           (sn_customer_id ord, Customer) #
             (case sn_rider_id ord of None \<Rightarrow> [] | Some r \<Rightarrow> [(r, Rider)])
       \<and> recipients ord OutForDelivery = [(sn_customer_id ord, Customer)]
       \<and> recipients ord Delivered = [(sn_customer_id ord, Customer), (owner, RestaurantOwner)]
       \<and> recipients ord Cancelled =
           [(sn_customer_id ord, Customer), (owner, RestaurantOwner)] @
             (case sn_rider_id ord of None \<Rightarrow> [] | Some r \<Rightarrow> [(r, Rider)])
       \<and> (\<exists>ns. statusNotifications ord st = Inr ns
              \<and> map (\<lambda>n. (n_userId n, n_userRole n)) ns = recipients ord st
              \<and> notifyOrderStatusChange persist ord st =
                  Inr \<lparr>fo_success = True,
                       fo_notifications = map (\<lambda>n. if persist n then Created n else Failed) ns,
                       fo_count = length (recipients ord st)\<rparr>
              \<and> notifyOrderStatusChange (\<lambda>n. True) ord st =
                  Inr \<lparr>fo_success = True, fo_notifications = map Created ns,
                       fo_count = length (recipients ord st)\<rparr>)"
proof -
  have a: "recipients ord Ready =
           (sn_customer_id ord, Customer) #
             (case sn_rider_id ord of None \<Rightarrow> [] | Some r \<Rightarrow> [(r, Rider)])"
    using rider by (cases "sn_rider_id ord") (auto simp: recipients_def notify_def)
  have b: "recipients ord Cancelled =
           [(sn_customer_id ord, Customer), (owner, RestaurantOwner)] @
             (case sn_rider_id ord of None \<Rightarrow> [] | Some r \<Rightarrow> [(r, Rider)])"
    using rider owner by (cases "sn_rider_id ord") (auto simp: recipients_def notify_def)
  from statusNotifications_total [OF owner] obtain ns where ns: "statusNotifications ord st = Inr ns"
    by blast
  have c: "\<exists>ns. statusNotifications ord st = Inr ns
              \<and> map (\<lambda>n. (n_userId n, n_userRole n)) ns = recipients ord st
              \<and> notifyOrderStatusChange persist ord st =
                  Inr \<lparr>fo_success = True,
                       fo_notifications = map (\<lambda>n. if persist n then Created n else Failed) ns,
                       fo_count = length (recipients ord st)\<rparr>
              \<and> notifyOrderStatusChange (\<lambda>n. True) ord st =
                  Inr \<lparr>fo_success = True, fo_notifications = map Created ns,
                       fo_count = length (recipients ord st)\<rparr>"
    using ns by (intro exI [of _ ns]) (simp add: notifyOrderStatusChange_def recipients_def Let_def)
  from a b c owner show ?thesis by (simp add: recipients_def notify_def)
qed

theorem fanout_recipients_witness:
  "sn_restaurant_owner ex_snapshot = Some 9 \<and> sn_rider_id ex_snapshot \<noteq> Some 0
   \<and> recipients ex_snapshot Ready = [(2, Customer), (7, Rider)]
   \<and> recipients ex_snapshot OutForDelivery = [(2, Customer)]
   \<and> recipients ex_snapshot Delivered = [(2, Customer), (9, RestaurantOwner)]
   \<and> recipients ex_snapshot Cancelled = [(2, Customer), (9, RestaurantOwner), (7, Rider)]
   \<and> notifyOrderStatusChange (\<lambda>n. True) ex_snapshot Cancelled =
        Inr \<lparr>fo_success = True,
             fo_notifications = [Created (notify 2 Customer order_cancelled),
                                 Created (notify 9 RestaurantOwner order_cancelled_restaurant),
                                 Created (notify 7 Rider order_cancelled_rider)],
             fo_count = 3\<rparr>
   \<and> notifyOrderStatusChange (\<lambda>n. n_userRole n \<noteq> Customer) ex_snapshot Delivered =
        Inr \<lparr>fo_success = True,
             fo_notifications = [Failed, Created (notify 9 RestaurantOwner order_delivered)],
             fo_count = 2\<rparr>"
proof -
  have o: "sn_restaurant_owner ex_snapshot = Some 9" by (simp add: ex_snapshot_def)
  have r: "sn_rider_id ex_snapshot \<noteq> Some 0" by (simp add: ex_snapshot_def)
  have v: "sn_rider_id ex_snapshot = Some 7" "sn_customer_id ex_snapshot = 2"
    by (simp_all add: ex_snapshot_def)
  have c: "notifyOrderStatusChange (\<lambda>n. True) ex_snapshot Cancelled =
        Inr \<lparr>fo_success = True,
             fo_notifications = [Created (notify 2 Customer order_cancelled),
                                 Created (notify 9 RestaurantOwner order_cancelled_restaurant),
                                 Created (notify 7 Rider order_cancelled_rider)],
             fo_count = 3\<rparr>"
    by (simp add: notifyOrderStatusChange_def ex_snapshot_def Let_def)
  have d: "notifyOrderStatusChange (\<lambda>n. n_userRole n \<noteq> Customer) ex_snapshot Delivered =
        Inr \<lparr>fo_success = True,
             fo_notifications = [Failed, Created (notify 9 RestaurantOwner order_delivered)],
             fo_count = 2\<rparr>"
    by (simp add: notifyOrderStatusChange_def ex_snapshot_def Let_def notify_def)
  from fanout_recipients [OF o r, of Ready "\<lambda>n. True"] o r v c d show ?thesis by simp
qed

section \<open>Placing an order\<close>

lemma placeOrder_failure_store:
  "answer (placeOrder d uid aid today now) = Inl e \<Longrightarrow> store (placeOrder d uid aid today now) = d"
  by (auto simp: placeOrder_def Let_def split: option.splits if_splits sum.splits prod.splits)

lemma placeOrder_empty_cart:
  "Cart_findByUser d uid = None \<or>
   (\<exists>c. Cart_findByUser d uid = Some c \<and> CartItem_findByCart d (cart_id c) = []) \<Longrightarrow>
   aid \<noteq> None \<Longrightarrow> aid \<noteq> Some 0 \<Longrightarrow>
   answer (placeOrder d uid aid today now) = Inl CartEmpty
   \<and> store (placeOrder d uid aid today now) = d"
  by (auto simp: placeOrder_def Let_def split: option.splits)

text \<open>
  Claim C6: a placement with an absent or empty cart fails with the empty-cart error and
  creates no row, and every failure rolls the transaction back. The first half holds
  (\<open>placeOrder_empty_cart\<close>, \<open>placeOrder_failure_store\<close>). The transaction, which the
  route opens before it validates anything, is rolled back only by the handler of thrown
  errors: a missing menu item during the inserts ends in \<open>RolledBack\<close>, while the
  answers for an absent and for an empty cart return with the transaction unfinished.
\<close>

theorem validation_failure_leaves_transaction_open:
  "placeOrder (shop_db\<lparr>carts := []\<rparr>) 2 (Some 4) ''2026-01-08'' 1000
     = \<lparr>answer = Inl CartEmpty, transaction = Unfinished, store = shop_db\<lparr>carts := []\<rparr>\<rparr>
   \<and> placeOrder (shop_db\<lparr>cart_items := []\<rparr>) 2 (Some 4) ''2026-01-08'' 1000
     = \<lparr>answer = Inl CartEmpty, transaction = Unfinished, store = shop_db\<lparr>cart_items := []\<rparr>\<rparr>
   \<and> transaction (placeOrder (shop_db\<lparr>menu_items := []\<rparr>) 2 (Some 4) ''2026-01-08'' 1000)
     = RolledBack"
  by code_simp


theorem validation_failure_leaves_transaction_open_witness:
  "transaction (placeOrder (shop_db\<lparr>carts := []\<rparr>) 2 (Some 4) ''2026-01-08'' 1000) \<noteq> RolledBack
   \<and> transaction (placeOrder (shop_db\<lparr>cart_items := []\<rparr>) 2 (Some 4) ''2026-01-08'' 1000) \<noteq> RolledBack
   \<and> orders (store (placeOrder (shop_db\<lparr>carts := []\<rparr>) 2 (Some 4) ''2026-01-08'' 1000)) = []
   \<and> order_items (store (placeOrder (shop_db\<lparr>carts := []\<rparr>) 2 (Some 4) ''2026-01-08'' 1000)) = []"
  using validation_failure_leaves_transaction_open by (simp add: shop_db_def empty_db_def)

text \<open>
  The transaction is rolled back exactly on the errors of the insert steps; on every
  failure of the validation it stays unfinished.
\<close>

lemma placeOrder_transaction:
  "answer (placeOrder d uid aid today now) = Inl e \<Longrightarrow>
   transaction (placeOrder d uid aid today now) =
     (if e \<in> {AddressRequired, CartEmpty, AddressNotFound, NotYourAddress, RestaurantNotAccepting}
      then Unfinished else RolledBack)"
proof -
  have oc: "Order_create d0 od t = Inl x \<Longrightarrow> x = ValidationError \<or> x = UniqueConstraintError" for d0 od t x
    by (auto simp: Order_create_def Let_def split: if_splits)
  have cc: "createFromCart d0 i xs = Inl x \<Longrightarrow> \<exists>m. x = MenuItemNotFound m" for d0 i xs x
    by (induction xs arbitrary: d0) (auto simp: Let_def split: option.splits sum.splits)
  assume "answer (placeOrder d uid aid today now) = Inl e"
  then show ?thesis
    by (auto simp: placeOrder_def Let_def dest: oc cc
             split: option.splits if_splits sum.splits prod.splits)
qed

lemma sum_list_map_sort_key:
  "sum_list (map f (sort_key g xs)) = (sum_list (map f xs) :: int)"
proof -
  have "mset (map f (sort_key g xs)) = mset (map f xs)" by simp
  then show ?thesis by (metis sum_mset_sum_list)
qed

lemma calculateSubtotal_findByCart:
  "calculateSubtotal d c = (\<Sum>x\<leftarrow>CartItem_findByCart d c. quantity x * price x)"
  by (simp add: calculateSubtotal_def CartItem_findByCart_def sum_list_map_sort_key)

lemma Order_create_Inr:
  assumes "Order_create d od now = Inr (d1, ord)"
  shows "subtotal ord = od_subtotal od \<and> delivery_fee ord = Some (od_delivery_fee od)
       \<and> total_amount ord = od_total_amount od \<and> status ord = Pending
       \<and> order_number ord = od_order_number od \<and> created_at ord = now
       \<and> orders d1 = orders d @ [ord]"
  using assms by (auto simp: Order_create_def Let_def split: if_splits)

lemma createFromCart_Inr:
  "createFromCart d i xs = Inr (d2, items) \<Longrightarrow>
   orders d2 = orders d
   \<and> map (\<lambda>it. (oi_order_id it, oi_menu_item_id it, oi_quantity it, oi_price it)) items
       = map (\<lambda>x. (i, ci_menu_item_id x, quantity x, price x)) xs"
proof (induction xs arbitrary: d d2 items)
  case Nil
  then show ?case by simp
next
  case (Cons x xs)
  then show ?case
    by (auto simp: Let_def split: option.splits sum.splits)
qed


text \<open>
  Claim C7. The order of a successful placement has as subtotal the sum of quantity times
  price over the items of the customer's cart, the fixed delivery fee of 50.00, and as
  total the subtotal plus the fee; one order item is written per cart item with its
  quantity and price, and the transaction is committed. The cart of the example, item 21
  twice at 10.00 and item 22 once at 5.00, gives 25.00 and 75.00.
\<close>

theorem placeOrder_totals:
  assumes ok: "answer (placeOrder d uid aid today now) = Inr (ord, items)"
  shows "\<exists>cart. Cart_findByUser d uid = Some cart
          \<and> subtotal ord = (\<Sum>x\<leftarrow>CartItem_findByCart d (cart_id cart). quantity x * price x)
          \<and> delivery_fee ord = Some 5000
          \<and> total_amount ord = subtotal ord + 5000
          \<and> map (\<lambda>it. (oi_order_id it, oi_menu_item_id it, oi_quantity it, oi_price it)) items
              = map (\<lambda>x. (order_id ord, ci_menu_item_id x, quantity x, price x))
                  (CartItem_findByCart d (cart_id cart))
          \<and> transaction (placeOrder d uid aid today now) = Committed
          \<and> orders (store (placeOrder d uid aid today now)) = orders d @ [ord]"
proof -
  from ok obtain a where aid: "aid = Some a" "a \<noteq> 0"
    by (cases aid) (auto simp: placeOrder_def split: if_splits)
  from ok aid obtain cart where cart: "Cart_findByUser d uid = Some cart"
    by (cases "Cart_findByUser d uid") (auto simp: placeOrder_def)
  let ?items = "CartItem_findByCart d (cart_id cart)"
  let ?sub = "calculateSubtotal d (cart_id cart)"
  let ?od = "\<lparr>od_customer_id = uid, od_restaurant_id = cart_restaurant_id cart,
              od_address_id = a, od_subtotal = ?sub, od_delivery_fee = DELIVERY_FEE,
              od_total_amount = (if ?sub + DELIVERY_FEE = 0 then ?sub + DELIVERY_FEE
                                 else ?sub + DELIVERY_FEE),
              od_order_number = generateOrderNumber d today\<rparr>"
  from ok aid cart obtain d1 where c1: "Order_create d ?od now = Inr (d1, ord)"
    by (auto simp: placeOrder_def Let_def split: option.splits if_splits sum.splits prod.splits)
  from ok aid cart c1 obtain d2 where c2: "createFromCart d1 (order_id ord) ?items = Inr (d2, items)"
    by (auto simp: placeOrder_def Let_def split: option.splits if_splits sum.splits prod.splits)
  from ok aid cart c1 c2
  have fin: "transaction (placeOrder d uid aid today now) = Committed"
    and st: "orders (store (placeOrder d uid aid today now)) = orders d2"
    by (auto simp: placeOrder_def Let_def split: option.splits if_splits sum.splits prod.splits)
  from Order_create_Inr [OF c1] createFromCart_Inr [OF c2] fin st cart
  show ?thesis
    by (simp add: calculateSubtotal_findByCart DELIVERY_FEE_def)
qed

theorem placeOrder_totals_witness:
  "(\<exists>ord items. answer (placeOrder shop_db 2 (Some 4) ''2026-01-08'' 1000) = Inr (ord, items)
      \<and> subtotal ord = 2500 \<and> delivery_fee ord = Some 5000 \<and> total_amount ord = 7500
      \<and> map (\<lambda>it. (oi_menu_item_id it, oi_quantity it, oi_price it)) items
          = [(21, 2, 1000), (22, 1, 500)])
   \<and> transaction (placeOrder shop_db 2 (Some 4) ''2026-01-08'' 1000) = Committed"
proof -
  let ?ord = "\<lparr>order_id = 1, customer_id = 2, restaurant_id = 3, address_id = 4,
            rider_id = None, order_number = ''ORD-20260108-001'',
            status = Pending, subtotal = 2500, delivery_fee = Some 5000,
            total_amount = 7500, estimated_delivery_time = None,
            delivered_at = None, cancelled_at = None,
            cancellation_reason = None, rider_earning = None,
            created_at = 1000\<rparr>"
  let ?items = "[\<lparr>oi_order_id = 1, oi_menu_item_id = 21, oi_quantity = 2,
             oi_price = 1000, oi_item_name = ''A''\<rparr>,
          \<lparr>oi_order_id = 1, oi_menu_item_id = 22, oi_quantity = 1,
             oi_price = 500, oi_item_name = ''B''\<rparr>]"
  have a: "answer (placeOrder shop_db 2 (Some 4) ''2026-01-08'' 1000) = Inr (?ord, ?items)"
    by code_simp
  from placeOrder_totals [OF a]
  have t: "transaction (placeOrder shop_db 2 (Some 4) ''2026-01-08'' 1000) = Committed"
    by blast
  from a t show ?thesis by simp
qed

section \<open>Order numbers\<close>

text \<open>Printing a sequence and parsing it back.\<close>

lemma of_char_digitChar: "n < 10 \<Longrightarrow> (of_char (digitChar n) :: nat) = n + 48"
  by (simp add: digitChar_def)

lemma isDigit_digitChar: "n < 10 \<Longrightarrow> isDigit (digitChar n)"
  by (simp add: isDigit_def of_char_digitChar)

lemma digitValue_digitChar: "n < 10 \<Longrightarrow> digitValue (digitChar n) = n"
  by (simp add: digitValue_def of_char_digitChar)

lemma isDigit_not_hyphen: "isDigit c \<Longrightarrow> c \<noteq> CHR ''-''"
  by (auto simp: isDigit_def)

lemma digitValue_zero: "digitValue CHR ''0'' = 0"
  by (simp add: digitValue_def)

lemma isDigit_zero: "isDigit CHR ''0''"
  by (simp add: isDigit_def)

lemma toString_digits: "c \<in> set (toString n) \<Longrightarrow> isDigit c"
proof (induction n arbitrary: c rule: toString.induct)
  case (1 n)
  show ?case
  proof (cases "n < 10")
    case True
    with "1.prems" show ?thesis by (simp add: toString.simps [of n] isDigit_digitChar)
  next
    case False
    with "1.prems" "1.IH" show ?thesis
      by (auto simp: toString.simps [of n] isDigit_digitChar)
  qed
qed

lemma toString_nonempty: "toString n \<noteq> []"
  by (subst toString.simps) simp

lemma decValue_snoc: "decValue (ds @ [c]) = 10 * decValue ds + digitValue c"
  by (simp add: decValue_def)

lemma decValue_toString: "decValue (toString n) = n"
proof (induction n rule: toString.induct)
  case (1 n)
  show ?case
  proof (cases "n < 10")
    case True
    then show ?thesis by (simp add: toString.simps [of n] decValue_def digitValue_digitChar)
  next
    case False
    with "1.IH" show ?thesis
      by (simp add: toString.simps [of n] decValue_snoc digitValue_digitChar)
  qed
qed

lemma decValue_zeros: "decValue (replicate k CHR ''0'' @ s) = decValue s"
proof -
  have "foldl (\<lambda>a c. 10 * a + digitValue c) 0 (replicate k CHR ''0'') = 0"
    by (induction k) (simp_all add: digitValue_zero)
  then show ?thesis by (simp add: decValue_def)
qed

lemma padded_digits: "c \<in> set (padStart 3 CHR ''0'' (toString n)) \<Longrightarrow> isDigit c"
  by (auto simp: padStart_def isDigit_zero toString_digits)

lemma parseInt_padded: "parseInt (padStart 3 CHR ''0'' (toString n)) = Some n"
proof -
  let ?s = "padStart 3 CHR ''0'' (toString n)"
  have all: "takeWhile isDigit ?s = ?s"
    by (simp add: takeWhile_eq_all_conv padded_digits)
  have ne: "?s \<noteq> []" by (simp add: padStart_def toString_nonempty)
  have v: "decValue ?s = n"
    by (simp add: padStart_def decValue_zeros decValue_toString)
  show ?thesis unfolding parseInt_def Let_def all using ne v by simp
qed

lemma splitOn_no_sep: "sep \<notin> set s \<Longrightarrow> splitOn sep s = [s]"
  by (induction s) auto

lemma splitOn_append_sep: "sep \<notin> set a \<Longrightarrow> splitOn sep (a @ sep # r) = a # splitOn sep r"
  by (induction a) auto

lemma hyphen_dateStr: "CHR ''-'' \<notin> set (dateStr today)"
  by (simp add: dateStr_def)

lemma splitOn_orderNumber:
  "splitOn CHR ''-'' (orderNumber today n)
     = [''ORD'', dateStr today, padStart 3 CHR ''0'' (toString n)]"
proof -
  have s: "CHR ''-'' \<notin> set (padStart 3 CHR ''0'' (toString n))"
    using padded_digits isDigit_not_hyphen by blast
  have "orderNumber today n
          = ''ORD'' @ CHR ''-'' # (dateStr today @ CHR ''-'' # padStart 3 CHR ''0'' (toString n))"
    by (simp add: orderNumber_def)
  moreover have "splitOn CHR ''-'' (''ORD'' @ CHR ''-'' # (dateStr today @ CHR ''-'' # padStart 3 CHR ''0'' (toString n)))
      = ''ORD'' # splitOn CHR ''-'' (dateStr today @ CHR ''-'' # padStart 3 CHR ''0'' (toString n))"
    by (rule splitOn_append_sep) simp
  moreover have "splitOn CHR ''-'' (dateStr today @ CHR ''-'' # padStart 3 CHR ''0'' (toString n))
      = dateStr today # splitOn CHR ''-'' (padStart 3 CHR ''0'' (toString n))"
    by (rule splitOn_append_sep [OF hyphen_dateStr])
  ultimately show ?thesis
    by (simp only: splitOn_no_sep [OF s])
qed

lemma sequenceOf_orderNumber: "sequenceOf (orderNumber today n) = Some n"
  by (simp add: sequenceOf_def splitOn_orderNumber parseInt_padded)

lemma orderNumber_inj: "orderNumber today n = orderNumber today m \<Longrightarrow> n = m"
  using sequenceOf_orderNumber by (metis option.inject)




















end
